theory Spec2Isabelle
  imports Complex_Main
begin

section \<open>Shared data model (edge-core-js types used by both plugins)\<close>

text \<open>
  Amounts travel through the plugins as decimal strings and are only ever combined with
  the biggystring operations, which are exact on decimal strings. An amount is modelled by
  the rational number its string denotes, so \<^verbatim>\<open>'0'\<close> is \<open>0\<close> and
  \<^verbatim>\<open>'1.001'\<close> is \<open>1001 / 1000\<close>.
\<close>

type_synonym amount = rat

text \<open>\<^verbatim>\<open>EdgeSwapRequest.quoteFor\<close>: \<^verbatim>\<open>'from' | 'to' | 'max'\<close>.\<close>

datatype quoteFor = QuoteFrom | QuoteTo | QuoteMax

text \<open>
  The errors the two plugins raise. \<open>SwapCurrencyError\<close> and \<open>SwapBelowLimitError\<close>
  carry the plugin id of the \<^verbatim>\<open>swapInfo\<close> they are built with; \<open>StatusError\<close> is the
  \<^verbatim>\<open>Error\<close> whose message ends with the HTTP status; \<open>Error\<close> is a plain
  \<^verbatim>\<open>Error\<close> with its message; \<open>TypeError\<close> is what a cleaner or a property read of
  \<^verbatim>\<open>undefined\<close> throws.
\<close>

datatype error =
    SwapCurrencyError string string string
  | SwapBelowLimitError string amount
  | StatusError nat
  | Error string
  | TypeError string

text \<open>A small JSON value, for payloads the code passes on without a fixed shape.\<close>

datatype json =
    JNull
  | JBool bool
  | JNumber rat
  | JString string
  | JArray "json list"
  | JObject "(string \<times> json) list"

record addressInfo =
  legacyAddress :: "string option"
  publicAddress :: string

record spendTarget =
  memo :: "string option"
  nativeAmount :: amount
  publicAddress :: "string option"
  uniqueIdentifier :: "string option"

record swapData =
  orderId :: "string option"
  orderUri :: "string option"
  isEstimate :: bool
  payoutAddress :: string
  payoutCurrencyCode :: string
  payoutNativeAmount :: amount
  payoutWalletId :: string
  plugin :: string
  refundAddress :: "string option"

record spendInfo =
  currencyCode :: string
  spendTargets :: "spendTarget list"
  networkFeeOption :: "string option"
  swapData :: "swapData option"
  metadata :: "(string \<times> string) option"
  customNetworkFee :: "(string \<times> string) list option"
  otherParams :: "(string \<times> string) list"

text \<open>An \<^verbatim>\<open>EdgeTransaction\<close> is opaque to the plugins; it is identified by a string.\<close>

datatype transaction = Transaction string

text \<open>
  A JavaScript number, which the plugins hand on through \<^verbatim>\<open>toString()\<close> only. A
  finite number whose magnitude is at least \<^verbatim>\<open>1e-6\<close> and below \<^verbatim>\<open>1e21\<close>, and zero,
  is rendered in plain decimal notation, which denotes it (\<open>Plain\<close>). Any other finite
  number is rendered in exponent notation (\<open>Exponent\<close>, with the number and the text,
  such as \<^verbatim>\<open>1e+21\<close> and \<^verbatim>\<open>1e-7\<close>). A number that is not finite is rendered by
  its name (\<open>NonFinite\<close>).
\<close>

datatype jsNumber = Plain amount | Exponent amount string | NonFinite string

definition numberValue :: "jsNumber \<Rightarrow> amount option" where
  "numberValue n = (case n of Plain a \<Rightarrow> Some a | Exponent a t \<Rightarrow> Some a | NonFinite t \<Rightarrow> None)"

text \<open>
  \<^verbatim>\<open>EdgeCurrencyWallet\<close>, with the members the plugins read. The two denomination
  conversions of a decimal amount and the address lookups are taken to resolve;
  \<open>makeSpend\<close> may reject. \<open>denominationToNativeText\<close> is \<^verbatim>\<open>denominationToNative\<close>
  handed a text that is not a number in plain decimal notation: what it returns, or what
  it throws. \<open>tokenId\<close> is what \<^verbatim>\<open>getTokenId\<close> of swap-helpers gives for the wallet
  and a currency code.
\<close>

record wallet =
  walletId :: string
  pluginId :: string
  getReceiveAddress :: "string \<Rightarrow> addressInfo"
  nativeToDenomination :: "amount \<Rightarrow> string \<Rightarrow> amount"
  denominationToNative :: "amount \<Rightarrow> string \<Rightarrow> amount"
  denominationToNativeText :: "string \<Rightarrow> string \<Rightarrow> error + amount"
  tokenId :: "string \<Rightarrow> string option"
  makeSpend :: "spendInfo \<Rightarrow> error + transaction"

record request =
  fromWallet :: wallet
  toWallet :: wallet
  fromCurrencyCode :: string
  toCurrencyCode :: string
  reqNativeAmount :: amount
  quoteFor :: quoteFor

text \<open>
  \<^verbatim>\<open>wallet.denominationToNative(n.toString(), currencyCode)\<close> for a JavaScript number.
\<close>

definition numberToNative :: "wallet \<Rightarrow> jsNumber \<Rightarrow> string \<Rightarrow> error + amount" where
  "numberToNative w n cc =
     (case n of
        Plain a \<Rightarrow> Inr (denominationToNative w a cc)
      | Exponent a t \<Rightarrow> denominationToNativeText w t cc
      | NonFinite t \<Rightarrow> denominationToNativeText w t cc)"

text \<open>biggystring: exact comparison, sum, difference and product of decimal strings.\<close>

definition gt :: "amount \<Rightarrow> amount \<Rightarrow> bool" where
  "gt a b = (b < a)"

definition gte :: "amount \<Rightarrow> amount \<Rightarrow> bool" where
  "gte a b = (b \<le> a)"

definition add :: "amount \<Rightarrow> amount \<Rightarrow> amount" where
  "add a b = a + b"

definition sub :: "amount \<Rightarrow> amount \<Rightarrow> amount" where
  "sub a b = a - b"

definition mul :: "amount \<Rightarrow> amount \<Rightarrow> amount" where
  "mul a b = a * b"

section \<open>Swapuz (src/swap/swapuz.ts)\<close>

definition swapuzPluginId :: string where
  "swapuzPluginId = ''swapuz''"

definition orderUri_prefix :: string where
  "orderUri_prefix = ''https://swapuz.com/order/''"

text \<open>\<^verbatim>\<open>dontUseLegacy = { DGB: true }\<close>\<close>

definition dontUseLegacy :: "string \<Rightarrow> bool" where
  "dontUseLegacy cc = (cc = ''DGB'')"

text \<open>
  \<^verbatim>\<open>INVALID_CURRENCY_CODES = { from: {}, to: { zcash: ['ZEC'] } }\<close>, each side a table from
  the wallet's currency plugin id to the refused currency codes.
\<close>

definition INVALID_CURRENCY_CODES_from :: "string \<Rightarrow> string list" where
  "INVALID_CURRENCY_CODES_from p = []"

definition INVALID_CURRENCY_CODES_to :: "string \<Rightarrow> string list" where
  "INVALID_CURRENCY_CODES_to p = (if p = ''zcash'' then [''ZEC''] else [])"

text \<open>
  Modelled from the spec: \<^verbatim>\<open>checkInvalidCodes\<close> of swap-helpers, which is not among the
  sources. The validator ``fails [...] if the (direction, chain, asset) tuple appears in a
  provider-specific denylist''; the failure is the plugin's \<open>SwapCurrencyError\<close> for the
  request's pair, the error the plugins raise for every refused pair.
\<close>

definition checkInvalidCodes ::
  "(string \<Rightarrow> string list) \<Rightarrow> (string \<Rightarrow> string list) \<Rightarrow> request \<Rightarrow> string \<Rightarrow> error option" where
  "checkInvalidCodes invalidFrom invalidTo req pid =
     (if fromCurrencyCode req \<in> set (invalidFrom (pluginId (fromWallet req)))
         \<or> toCurrencyCode req \<in> set (invalidTo (pluginId (toWallet req)))
      then Some (SwapCurrencyError pid (fromCurrencyCode req) (toCurrencyCode req))
      else None)"

text \<open>\<^verbatim>\<open>getAddress(wallet, currencyCode)\<close>, lines 58-66.\<close>

definition getAddress :: "wallet \<Rightarrow> string \<Rightarrow> string" where
  "getAddress w cc =
     (let addressInfo = getReceiveAddress w cc in
      case legacyAddress addressInfo of
        Some legacy \<Rightarrow> if \<not> dontUseLegacy cc then legacy else addressInfo.publicAddress addressInfo
      | None \<Rightarrow> addressInfo.publicAddress addressInfo)"

datatype mode = Fix | Float

text \<open>The four codes \<^verbatim>\<open>getCodesWithMainnetTranscription\<close> returns.\<close>

record codes =
  cFromCurrencyCode :: string
  cToCurrencyCode :: string
  cFromMainnetCode :: string
  cToMainnetCode :: string

text \<open>The body of the order-creation POST, lines 143-153.\<close>

record orderBody =
  obFrom :: string
  obFromNetwork :: string
  obTo :: string
  obToNetwork :: string
  obAddress :: string
  obAmount :: amount
  obMode :: mode
  obAddressUserFrom :: string
  obAddressRefound :: string

text \<open>
  The two requests the plugin sends: the rate query (a GET whose query string carries the
  mode, the amount and the four codes) and the order creation (a POST of the body).
  The list of calls issued so far is the state the plugin threads through.
\<close>

datatype call =
    RateCall mode amount string string string string
  | OrderCall orderBody

text \<open>\<^verbatim>\<open>asGetRate\<close> and \<^verbatim>\<open>asCreateOrder\<close>: the cleaned \<^verbatim>\<open>result\<close> of a response.\<close>

record getRate =
  minAmount :: jsNumber

record createOrder =
  uid :: string
  coAmount :: jsNumber
  amountResult :: jsNumber
  addressFrom :: string
  addressTo :: string
  memoFrom :: "string option"
  finishPayment :: int

text \<open>
  What one \<^verbatim>\<open>fetch\<close> and the cleaning of its body come to: the fetch, the reading of the
  body or the outer cleaner throws (\<open>Rejects\<close>); the response is not \<^verbatim>\<open>ok\<close>
  (\<open>NotOk\<close>, with its status); the body cleans with \<^verbatim>\<open>result\<close> undefined, as
  \<^verbatim>\<open>asMaybe\<close> gives for a result of another shape (\<open>NoResult\<close>); or it cleans with a
  result.
\<close>

datatype 'a reply = Rejects error | NotOk nat | NoResult | Result 'a

text \<open>
  The environment of the plugin: the remote service, which answers a call given the calls
  made before it; the helpers of the repository that are not among the sources
  (\<^verbatim>\<open>getCodesWithMainnetTranscription\<close> with its table, \<^verbatim>\<open>ensureInFuture\<close>), taken
  as parameters; and \<open>gtText\<close>, what biggystring's \<^verbatim>\<open>gt\<close> returns or throws when its
  first argument is a text that is not a number in plain decimal notation.
\<close>

record swapuz_env =
  rateReply :: "call list \<Rightarrow> call \<Rightarrow> getRate reply"
  orderReply :: "call list \<Rightarrow> call \<Rightarrow> createOrder reply"
  getCodesWithMainnetTranscription :: "request \<Rightarrow> codes"
  ensureInFuture :: "int \<Rightarrow> int"
  gtText :: "string \<Rightarrow> amount \<Rightarrow> error + bool"

text \<open>The quote \<^verbatim>\<open>makeSwapPluginQuote\<close> is called to build, with the arguments it is given.\<close>

record quote =
  qRequest :: request
  fromNativeAmount :: amount
  toNativeAmount :: amount
  qTx :: transaction
  destinationAddress :: string
  qPluginId :: string
  qIsEstimate :: bool
  expirationDate :: int
  quoteId :: string

definition makeSwapPluginQuote ::
  "request \<Rightarrow> amount \<Rightarrow> amount \<Rightarrow> transaction \<Rightarrow> string \<Rightarrow> string \<Rightarrow> bool \<Rightarrow> int \<Rightarrow> string \<Rightarrow> quote" where
  "makeSwapPluginQuote req fromAmt toAmt tx toAddr pid est expiry qid =
     \<lparr> qRequest = req, fromNativeAmount = fromAmt, toNativeAmount = toAmt, qTx = tx,
       destinationAddress = toAddr, qPluginId = pid, qIsEstimate = est,
       expirationDate = expiry, quoteId = qid \<rparr>"

text \<open>
  The variables \<^verbatim>\<open>fetchSwapQuoteInner\<close> binds before it defines \<^verbatim>\<open>getQuote\<close>
  (lines 97-113), each a function of the request.
\<close>

definition fromAddress :: "request \<Rightarrow> string" where
  "fromAddress req = getAddress (fromWallet req) (fromCurrencyCode req)"

definition toAddress :: "request \<Rightarrow> string" where
  "toAddress req = getAddress (toWallet req) (toCurrencyCode req)"

definition largeDenomAmount :: "swapuz_env \<Rightarrow> request \<Rightarrow> amount" where
  "largeDenomAmount env req =
     nativeToDenomination (fromWallet req) (reqNativeAmount req)
       (cFromCurrencyCode (getCodesWithMainnetTranscription env req))"

definition rateCall :: "swapuz_env \<Rightarrow> request \<Rightarrow> mode \<Rightarrow> call" where
  "rateCall env req m =
     (let c = getCodesWithMainnetTranscription env req in
      RateCall m (largeDenomAmount env req) (cFromCurrencyCode c) (cToCurrencyCode c)
        (cFromMainnetCode c) (cToMainnetCode c))"

definition orderCall :: "swapuz_env \<Rightarrow> request \<Rightarrow> mode \<Rightarrow> call" where
  "orderCall env req m =
     (let c = getCodesWithMainnetTranscription env req in
      OrderCall \<lparr> obFrom = cFromCurrencyCode c, obFromNetwork = cFromMainnetCode c,
        obTo = cToCurrencyCode c, obToNetwork = cToMainnetCode c,
        obAddress = toAddress req, obAmount = largeDenomAmount env req, obMode = m,
        obAddressUserFrom = fromAddress req, obAddressRefound = fromAddress req \<rparr>)"

text \<open>\<^verbatim>\<open>gt(minAmount.toString(), largeDenomAmount)\<close>, line 134.\<close>

definition gtNumber :: "swapuz_env \<Rightarrow> jsNumber \<Rightarrow> amount \<Rightarrow> error + bool" where
  "gtNumber env n y =
     (case n of
        Plain x \<Rightarrow> Inr (gt x y)
      | Exponent x t \<Rightarrow> gtText env t y
      | NonFinite t \<Rightarrow> gtText env t y)"

text \<open>The spend of lines 187-208, for a created order and its payout in native units.\<close>

definition swapuzSpendInfo ::
  "swapuz_env \<Rightarrow> request \<Rightarrow> mode \<Rightarrow> createOrder \<Rightarrow> amount \<Rightarrow> spendInfo" where
  "swapuzSpendInfo env req m ord toNative =
     (let c = getCodesWithMainnetTranscription env req in
      \<lparr> currencyCode = cFromCurrencyCode c,
        spendTargets = [\<lparr> memo = None, nativeAmount = reqNativeAmount req,
                          publicAddress = Some (addressFrom ord),
                          uniqueIdentifier = memoFrom ord \<rparr>],
        networkFeeOption = Some (if cFromCurrencyCode c = ''BTC'' then ''high'' else ''standard''),
        swapData = Some \<lparr> orderId = Some (uid ord), orderUri = Some (orderUri_prefix @ uid ord),
                     isEstimate = (m = Float), payoutAddress = toAddress req,
                     payoutCurrencyCode = cToCurrencyCode c, payoutNativeAmount = toNative,
                     payoutWalletId = walletId (toWallet req), plugin = swapuzPluginId,
                     refundAddress = Some (fromAddress req) \<rparr>,
        metadata = None, customNetworkFee = None, otherParams = [] \<rparr>)"

text \<open>
  \<^verbatim>\<open>getQuote(mode)\<close>, lines 115-223. It takes the calls issued so far and returns the
  quote or the error thrown, with the calls issued so far extended by its own. The two
  numbers of the responses, \<^verbatim>\<open>minAmount\<close> and \<^verbatim>\<open>amountResult\<close>, are handed on as
  \<^verbatim>\<open>toString()\<close> renders them. The order body carries \<^verbatim>\<open>parseFloat\<close> of the amount;
  the call records the amount it is parsed from.
\<close>

definition getQuote ::
  "swapuz_env \<Rightarrow> request \<Rightarrow> mode \<Rightarrow> call list \<Rightarrow> (error + quote) \<times> call list" where
  "getQuote env req m tr =
     (let c = getCodesWithMainnetTranscription env req;
          tr1 = tr @ [rateCall env req m] in
      case rateReply env tr (rateCall env req m) of
        Rejects e \<Rightarrow> (Inl e, tr1)
      | NotOk status \<Rightarrow> (Inl (StatusError status), tr1)
      | NoResult \<Rightarrow>
          (Inl (SwapCurrencyError swapuzPluginId (cFromCurrencyCode c) (cToCurrencyCode c)), tr1)
      | Result rate \<Rightarrow>
          (case gtNumber env (minAmount rate) (largeDenomAmount env req) of
             Inl e \<Rightarrow> (Inl e, tr1)
           | Inr True \<Rightarrow>
               (case numberToNative (fromWallet req) (minAmount rate) (cFromCurrencyCode c) of
                  Inl e \<Rightarrow> (Inl e, tr1)
                | Inr nativeMinAmount \<Rightarrow>
                    (Inl (SwapBelowLimitError swapuzPluginId nativeMinAmount), tr1))
           | Inr False \<Rightarrow>
               (let tr2 = tr1 @ [orderCall env req m] in
                case orderReply env tr1 (orderCall env req m) of
                  Rejects e \<Rightarrow> (Inl e, tr2)
                | NotOk status \<Rightarrow> (Inl (StatusError status), tr2)
                | NoResult \<Rightarrow>
                    (Inl (SwapCurrencyError swapuzPluginId (cFromCurrencyCode c)
                            (cToCurrencyCode c)),
                     tr2)
                | Result ord \<Rightarrow>
                    (case numberToNative (toWallet req) (amountResult ord) (cToCurrencyCode c) of
                       Inl e \<Rightarrow> (Inl e, tr2)
                     | Inr toNative \<Rightarrow>
                         (case makeSpend (fromWallet req)
                                 (swapuzSpendInfo env req m ord toNative) of
                            Inl e \<Rightarrow> (Inl e, tr2)
                          | Inr tx \<Rightarrow>
                              (Inr (makeSwapPluginQuote req (reqNativeAmount req) toNative tx
                                      (toAddress req) swapuzPluginId (m = Float)
                                      (ensureInFuture env (finishPayment ord)) (uid ord)),
                               tr2))))))"

text \<open>
  \<^verbatim>\<open>fetchSwapQuoteInner\<close>, lines 82-236: the refusal of a reverse quote, the denylist,
  then the fixed-rate attempt and, in the handler of its failure, the floating-rate one.
\<close>

definition fetchSwapQuoteInner ::
  "swapuz_env \<Rightarrow> request \<Rightarrow> call list \<Rightarrow> (error + quote) \<times> call list" where
  "fetchSwapQuoteInner env req tr =
     (if quoteFor req = QuoteTo then
        (Inl (SwapCurrencyError swapuzPluginId (fromCurrencyCode req) (toCurrencyCode req)), tr)
      else
        case checkInvalidCodes INVALID_CURRENCY_CODES_from INVALID_CURRENCY_CODES_to req
               swapuzPluginId of
          Some e \<Rightarrow> (Inl e, tr)
        | None \<Rightarrow>
            (case getQuote env req Fix tr of
               (Inr q, tr1) \<Rightarrow> (Inr q, tr1)
             | (Inl e, tr1) \<Rightarrow>
                 (case getQuote env req Float tr1 of
                    (Inr q, tr2) \<Rightarrow> (Inr q, tr2)
                  | (Inl e2, tr2) \<Rightarrow> (Inl e, tr2))))"

text \<open>
  \<^verbatim>\<open>div18\<close> of util/biggystringplus, which is not among the sources: biggystring's
  division to 18 decimal places, \<^verbatim>\<open>div(a, b, 18)\<close>. The quotient is cut after its
  eighteenth decimal, not rounded; a divisor of zero throws.
\<close>

definition trunc18 :: "amount \<Rightarrow> amount" where
  "trunc18 x =
     (if 0 \<le> x then of_int \<lfloor>x * 10 ^ 18\<rfloor> / 10 ^ 18
      else - (of_int \<lfloor>- x * 10 ^ 18\<rfloor> / 10 ^ 18))"

definition div18 :: "amount \<Rightarrow> amount \<Rightarrow> error + amount" where
  "div18 a b = (if b = 0 then Inl (Error ''Assertion failed'') else Inr (trunc18 (a / b)))"

text \<open>
  The target of the solver, lines 255-258: the requested native amount, converted by the
  \<^verbatim>\<open>nativeToDenomination\<close> of \<^verbatim>\<open>fromWallet\<close> with \<^verbatim>\<open>fromCurrencyCode\<close>.
\<close>

definition requestToExchangeAmount :: "request \<Rightarrow> amount" where
  "requestToExchangeAmount requestTop =
     nativeToDenomination (fromWallet requestTop) (reqNativeAmount requestTop)
       (fromCurrencyCode requestTop)"

text \<open>
  The loop of \<^verbatim>\<open>fetchSwapQuote\<close>, lines 261-278. \<open>retries\<close> is the counter before the
  \<^verbatim>\<open>--retries\<close> of the loop test; it starts at 5, so it is positive at every test.
\<close>

fun solve ::
  "swapuz_env \<Rightarrow> request \<Rightarrow> amount \<Rightarrow> nat \<Rightarrow> amount \<Rightarrow> call list \<Rightarrow> (error + quote) \<times> call list" where
  "solve env requestTop target retries fromQuoteNativeAmount tr =
     (if retries - 1 = 0 then
        (Inl (SwapCurrencyError swapuzPluginId (fromCurrencyCode requestTop)
                (toCurrencyCode requestTop)), tr)
      else
        case fetchSwapQuoteInner env
               (requestTop\<lparr>reqNativeAmount := fromQuoteNativeAmount\<rparr>) tr of
          (Inl e, tr') \<Rightarrow> (Inl e, tr')
        | (Inr quote, tr') \<Rightarrow>
            (let toExchangeAmount =
                   nativeToDenomination (toWallet requestTop) (toNativeAmount quote)
                     (toCurrencyCode requestTop) in
             if gte toExchangeAmount target then (Inr quote, tr')
             else
               case div18 (sub target toExchangeAmount) target of
                 Inl e \<Rightarrow> (Inl e, tr')
               | Inr percentDiff \<Rightarrow>
                   solve env requestTop target (retries - 1)
                     (mul (add (1001 / 1000) percentDiff) fromQuoteNativeAmount) tr'))"

declare solve.simps [simp del]

text \<open>\<^verbatim>\<open>fetchSwapQuote\<close>, lines 241-281.\<close>

definition fetchSwapQuote ::
  "swapuz_env \<Rightarrow> request \<Rightarrow> call list \<Rightarrow> (error + quote) \<times> call list" where
  "fetchSwapQuote env requestTop tr =
     (if quoteFor requestTop = QuoteFrom then fetchSwapQuoteInner env requestTop tr
      else
        solve env (requestTop\<lparr>quoteFor := QuoteFrom\<rparr>) (requestToExchangeAmount requestTop)
          5 (reqNativeAmount requestTop) tr)"

section \<open>Thorchain DEX Aggregator (src/swap/defi/thorchainDa.ts)\<close>

definition daPluginId :: string where
  "daPluginId = ''thorchainda''"

definition DA_VOLATILITY_SPREAD_DEFAULT :: rat where
  "DA_VOLATILITY_SPREAD_DEFAULT = 3 / 100"

definition THORSWAP_DEFAULT_SERVERS :: "string list" where
  "THORSWAP_DEFAULT_SERVERS = [''https://aggregator-prod-aulilvmdlq-uc.a.run.app'']"

definition tokenProxyMap :: "string \<Rightarrow> string option" where
  "tokenProxyMap p =
     (if p = ''ethereum'' then Some ''0xf892fef9da200d9e84c9b0647ecff0f34633abe8''
      else if p = ''avalanche'' then Some ''0x69ba883af416ff5501d54d5e27a1f497fbd97156''
      else None)"

text \<open>
  The part of the exchange-info payload the plugin reads,
  \<^verbatim>\<open>exchangeInfo.swap.plugins.thorchain\<close>, and the two module variables
  \<^verbatim>\<open>exchangeInfo\<close> and \<^verbatim>\<open>exchangeInfoLastUpdate\<close>.
\<close>

record thorchainInfo =
  daVolatilitySpread :: rat
  thorSwapServers :: "string list option"
  thornodeServers :: "string list option"

record cache =
  exchangeInfo :: "thorchainInfo option"
  exchangeInfoLastUpdate :: int

record inboundAddress =
  iaAddress :: string
  iaChain :: string
  iaHalted :: bool
  iaRouter :: "string option"

text \<open>\<^verbatim>\<open>asThorSwapRoute\<close>, lines 81-94, and \<^verbatim>\<open>asCalldata\<close>, lines 76-79.\<close>

record thorSwapRoute =
  contract :: "string option"
  contractMethod :: "string option"
  contractInfo :: "string option"
  complete :: bool
  path :: string
  providers :: "string list"
  calldata :: json
  expectedOutput :: amount
  expectedOutputMaxSlippage :: amount
  expectedOutputUSD :: amount
  expectedOutputMaxSlippageUSD :: amount
  deadline :: "string option"

record calldataMemo =
  tcMemo :: "string option"
  cdMemo :: "string option"

text \<open>
  \<^verbatim>\<open>raw[key]\<close> for a value parsed from JSON and one of the keys the plugin reads, none
  of which is an index or a member every object has: the property of an object (the last
  one, when the text repeats the key), and undefined for an array, a string, a number or a
  boolean. The caller sees to \<^verbatim>\<open>null\<close>, where the read throws.
\<close>

definition jsonMember :: "json \<Rightarrow> string \<Rightarrow> json option" where
  "jsonMember j key = (case j of JObject props \<Rightarrow> map_of (rev props) key | _ \<Rightarrow> None)"

text \<open>
  \<^verbatim>\<open>asOptional(asString)\<close> on a property: absent or \<^verbatim>\<open>null\<close> gives undefined, a
  string gives the string, anything else throws.
\<close>

definition asOptionalString :: "json option \<Rightarrow> error + string option" where
  "asOptionalString raw =
     (case raw of
        None \<Rightarrow> Inr None
      | Some JNull \<Rightarrow> Inr None
      | Some (JString s) \<Rightarrow> Inr (Some s)
      | Some _ \<Rightarrow> Inl (TypeError ''Expected a string''))"

text \<open>
  \<^verbatim>\<open>asCalldata\<close>: \<^verbatim>\<open>asObject\<close> throws for \<^verbatim>\<open>null\<close> and for a value whose
  \<^verbatim>\<open>typeof\<close> is not \<^verbatim>\<open>'object'\<close> (a boolean, a number, a string); it accepts an
  object and an array, and cleans the two properties.
\<close>

definition isTypeofObject :: "json \<Rightarrow> bool" where
  "isTypeofObject raw = (case raw of JObject props \<Rightarrow> True | JArray xs \<Rightarrow> True | _ \<Rightarrow> False)"

definition asCalldata :: "json \<Rightarrow> error + calldataMemo" where
  "asCalldata raw =
     (if isTypeofObject raw then
        (case asOptionalString (jsonMember raw ''tcMemo'') of
           Inl e \<Rightarrow> Inl e
         | Inr t \<Rightarrow>
             (case asOptionalString (jsonMember raw ''memo'') of
                Inl e \<Rightarrow> Inl e
              | Inr m \<Rightarrow> Inr \<lparr> tcMemo = t, cdMemo = m \<rparr>))
      else Inl (TypeError ''Expected an object''))"

text \<open>\<^verbatim>\<open>ThorSwapQuoteParams\<close>, lines 65-74 and 226-235.\<close>

record quoteParams =
  sellAsset :: string
  buyAsset :: string
  sellAmount :: amount
  slippage :: rat
  recipientAddress :: string
  senderAddress :: string
  affiliateAddress :: string
  affiliateBasisPoints :: string

text \<open>
  The requests the plugin sends: the exchange-info query for the app id, and the two
  waterfall fetches, each with the servers it may try.
\<close>

datatype thorCall =
    InfoCall string
  | InboundCall "string list"
  | QuoteCall "string list" quoteParams

text \<open>
  The exchange-info fetch: the fetch rejects or times out; the response is not \<^verbatim>\<open>ok\<close>;
  reading or cleaning the body throws; or the payload is there.
\<close>

datatype infoReply = InfoRejects error | InfoNotOk | InfoBadPayload error | InfoOk thorchainInfo

text \<open>
  A waterfall fetch: it rejects; the response is not \<^verbatim>\<open>ok\<close> and has this text;
  reading or cleaning the body throws; or the cleaned body is there.
\<close>

datatype 'a wreply = WRejects error | WNotOk string | WBadJson error | WOk 'a

record abiEntry =
  abiType :: string
  abiData :: json

record evmTokenArgs =
  etAssetAddress :: string
  etAmountToSwapWei :: amount
  etContractAddress :: string
  etVaultAddress :: string
  etMemo :: string

record evmApprovalArgs =
  eaContractAddress :: "string option"
  eaAssetAddress :: string
  eaNativeAmount :: amount

text \<open>
  The environment of the plugin: its init options, the constants and helpers it imports
  from files that are not among the sources (\<^verbatim>\<open>./thorchain\<close>, \<^verbatim>\<open>./abi/abiMap\<close>,
  \<^verbatim>\<open>./defiUtils\<close>, util/utils), the ethers call that encodes a contract call, and the
  remote services, which answer a call given the calls made before it.
\<close>

record thor_env =
  appId :: string
  affiliateFeeBasis :: string
  thorname :: string
  EVM_CURRENCY_CODES :: "string \<Rightarrow> bool"
  EXCHANGE_INFO_UPDATE_FREQ_MS :: int
  EXPIRATION_MS :: int
  getGasLimit :: "string \<Rightarrow> string \<Rightarrow> string option"
  INVALID_CURRENCY_CODES_da_from :: "string \<Rightarrow> string list"
  INVALID_CURRENCY_CODES_da_to :: "string \<Rightarrow> string list"
  MAINNET_CODE_TRANSCRIPTION :: "string \<Rightarrow> string option"
  THORNODE_SERVERS_DEFAULT :: "string list"
  utilsGetAddress :: "wallet \<Rightarrow> string"
  getEvmTokenData :: "evmTokenArgs \<Rightarrow> error + string"
  getEvmApprovalData :: "evmApprovalArgs \<Rightarrow> error + string option"
  abiMap :: "string \<Rightarrow> (string \<Rightarrow> abiEntry option) option"
  populateTransaction :: "string \<Rightarrow> json \<Rightarrow> string \<Rightarrow> json option list \<Rightarrow> error + string option"
  infoReply :: "thorCall list \<Rightarrow> thorCall \<Rightarrow> infoReply"
  inboundReply :: "thorCall list \<Rightarrow> thorCall \<Rightarrow> inboundAddress list wreply"
  quoteReply :: "thorCall list \<Rightarrow> thorCall \<Rightarrow> thorSwapRoute list wreply"

subsection \<open>\<^verbatim>\<open>getCalldataData\<close>, lines 485-553\<close>

definition calldataOrder :: "string \<Rightarrow> string list option" where
  "calldataOrder t =
     (if t = ''TC_ROUTER_GENERIC'' then
        Some [''tcRouter'', ''tcVault'', ''tcMemo'', ''token'', ''amount'', ''router'', ''data'',
              ''deadline'']
      else if t = ''TC_ROUTER_UNISWAP'' then
        Some [''tcRouter'', ''tcVault'', ''tcMemo'', ''token'', ''amount'', ''amountOutMin'',
              ''deadline'']
      else if t = ''TC_ROUTER_PANGOLIN'' then
        Some [''tcRouter'', ''tcVault'', ''tcMemo'', ''token'', ''amount'', ''amountOutMin'',
              ''deadline'']
      else None)"

text \<open>\<^verbatim>\<open>String.prototype.toLowerCase\<close>, on the ASCII letters.\<close>

definition lowerChar :: "char \<Rightarrow> char" where
  "lowerChar c =
     (case map_of (zip ''ABCDEFGHIJKLMNOPQRSTUVWXYZ'' ''abcdefghijklmnopqrstuvwxyz'') c of
        Some l \<Rightarrow> l
      | None \<Rightarrow> c)"

definition toLowerCase :: "string \<Rightarrow> string" where
  "toLowerCase s = map lowerChar s"

text \<open>
  The body of the \<^verbatim>\<open>try\<close>, lines 524-531: reading a member of \<^verbatim>\<open>undefined\<close> throws
  a \<open>TypeError\<close>, the type \<^verbatim>\<open>'INVALID'\<close> throws \<^verbatim>\<open>Unsupported contract\<close>.
\<close>

definition lookupAbi :: "thor_env \<Rightarrow> string \<Rightarrow> string \<Rightarrow> error + (json \<times> string)" where
  "lookupAbi env currencyPluginId contractAddress =
     (case abiMap env currencyPluginId of
        None \<Rightarrow> Inl (TypeError ''Cannot read properties of undefined'')
      | Some contracts \<Rightarrow>
          (case contracts (toLowerCase contractAddress) of
             None \<Rightarrow> Inl (TypeError ''Cannot destructure undefined'')
           | Some entry \<Rightarrow>
               if abiType entry = ''INVALID'' then Inl (Error ''Unsupported contract'')
               else Inr (abiData entry, abiType entry)))"

definition getCalldataData ::
  "thor_env \<Rightarrow> string \<Rightarrow> string \<Rightarrow> string \<Rightarrow> json \<Rightarrow> error + string" where
  "getCalldataData env currencyPluginId contractAddress methodName calldataAny =
     (case lookupAbi env currencyPluginId contractAddress of
        Inl e \<Rightarrow>
          Inl (Error (''Could not find ABI for contract '' @ currencyPluginId @ ''-''
                        @ contractAddress))
      | Inr (abi, contractType) \<Rightarrow>
          (case calldataOrder contractType of
             None \<Rightarrow> Inl (TypeError ''Cannot read properties of undefined (reading map)'')
           | Some keys \<Rightarrow>
               if calldataAny = JNull then Inl (TypeError ''Cannot read properties of null'')
               else
                 (case populateTransaction env contractAddress abi methodName
                         (map (jsonMember calldataAny) keys) of
                    Inl e \<Rightarrow> Inl e
                  | Inr None \<Rightarrow> Inl (Error ''No data in tx object'')
                  | Inr (Some data) \<Rightarrow> Inr data)))"

subsection \<open>\<^verbatim>\<open>fetchSwapQuoteInner\<close>, lines 132-469\<close>

text \<open>The \<open>SwapCurrencyError\<close> of the plugin for the request's pair.\<close>

definition daCurrencyError :: "request \<Rightarrow> error" where
  "daCurrencyError req = SwapCurrencyError daPluginId (fromCurrencyCode req) (toCurrencyCode req)"

text \<open>
  Lines 143-170: the same-asset check, the denylist and the two mainnet codes. The two
  address lookups between them resolve and issue no request.
\<close>

definition preflight :: "thor_env \<Rightarrow> request \<Rightarrow> error + (string \<times> string)" where
  "preflight env req =
     (if pluginId (fromWallet req) = pluginId (toWallet req)
         \<and> fromCurrencyCode req = toCurrencyCode req
      then Inl (daCurrencyError req)
      else
        case checkInvalidCodes (INVALID_CURRENCY_CODES_da_from env)
               (INVALID_CURRENCY_CODES_da_to env) req daPluginId of
          Some e \<Rightarrow> Inl e
        | None \<Rightarrow>
            (case MAINNET_CODE_TRANSCRIPTION env (pluginId (fromWallet req)) of
               None \<Rightarrow> Inl (daCurrencyError req)
             | Some fromMainnetCode \<Rightarrow>
                 (case MAINNET_CODE_TRANSCRIPTION env (pluginId (toWallet req)) of
                    None \<Rightarrow> Inl (daCurrencyError req)
                  | Some toMainnetCode \<Rightarrow> Inr (fromMainnetCode, toMainnetCode))))"

text \<open>
  The body of the \<^verbatim>\<open>try\<close>, lines 178-188: what it throws, or the module variables as
  it leaves them.
\<close>

definition refreshAttempt :: "thor_env \<Rightarrow> int \<Rightarrow> cache \<Rightarrow> thorCall list \<Rightarrow> error + cache" where
  "refreshAttempt env now c tr =
     (case infoReply env tr (InfoCall (appId env)) of
        InfoRejects e \<Rightarrow> Inl e
      | InfoNotOk \<Rightarrow> Inr c
      | InfoBadPayload e \<Rightarrow> Inl e
      | InfoOk info \<Rightarrow> Inr (c\<lparr>exchangeInfo := Some info, exchangeInfoLastUpdate := now\<rparr>))"

text \<open>Lines 172-195: the refresh when the payload is stale or absent; the handler only logs.\<close>

definition refreshExchangeInfo ::
  "thor_env \<Rightarrow> int \<Rightarrow> cache \<Rightarrow> thorCall list \<Rightarrow> cache \<times> thorCall list" where
  "refreshExchangeInfo env now c tr =
     (if now - exchangeInfoLastUpdate c > EXCHANGE_INFO_UPDATE_FREQ_MS env \<or> exchangeInfo c = None
      then
        (case refreshAttempt env now c tr of
           Inl e \<Rightarrow> (c, tr @ [InfoCall (appId env)])
         | Inr c' \<Rightarrow> (c', tr @ [InfoCall (appId env)]))
      else (c, tr))"

text \<open>Lines 153-155 and 197-202: the spread and the two server lists in use.\<close>

record tuning =
  tDaVolatilitySpread :: rat
  tThornodeServers :: "string list"
  tThorswapServers :: "string list"

definition tuningOf :: "thor_env \<Rightarrow> cache \<Rightarrow> tuning" where
  "tuningOf env c =
     (case exchangeInfo c of
        None \<Rightarrow>
          \<lparr> tDaVolatilitySpread = DA_VOLATILITY_SPREAD_DEFAULT,
            tThornodeServers = THORNODE_SERVERS_DEFAULT env,
            tThorswapServers = THORSWAP_DEFAULT_SERVERS \<rparr>
      | Some thorchain \<Rightarrow>
          \<lparr> tDaVolatilitySpread = daVolatilitySpread thorchain,
            tThornodeServers =
              (case thornodeServers thorchain of
                 None \<Rightarrow> THORNODE_SERVERS_DEFAULT env | Some s \<Rightarrow> s),
            tThorswapServers =
              (case thorSwapServers thorchain of
                 None \<Rightarrow> THORSWAP_DEFAULT_SERVERS | Some s \<Rightarrow> s) \<rparr>)"

text \<open>
  Lines 218-236. A token id is \<^verbatim>\<open>-0x\<close> followed by what \<^verbatim>\<open>getTokenId\<close> gives, or by
  nothing; the source token contract address is the token id with its leading
  \<^verbatim>\<open>-0x\<close> replaced by \<^verbatim>\<open>0x\<close>. The code takes the slippage, the spread times 100,
  in floating point and sends its rendering; the parameters record the exact product.
\<close>

definition tokenIdOf :: "wallet \<Rightarrow> string \<Rightarrow> string \<Rightarrow> string option" where
  "tokenIdOf w mainnetCode cc =
     (if mainnetCode \<noteq> cc
      then Some (''-0x'' @ (case tokenId w cc of None \<Rightarrow> [] | Some t \<Rightarrow> t))
      else None)"

definition sourceTokenContractAddress :: "request \<Rightarrow> string \<Rightarrow> string option" where
  "sourceTokenContractAddress req fromMainnetCode =
     map_option tl (tokenIdOf (fromWallet req) fromMainnetCode (fromCurrencyCode req))"

definition makeQuoteParams ::
  "thor_env \<Rightarrow> request \<Rightarrow> string \<Rightarrow> string \<Rightarrow> tuning \<Rightarrow> quoteParams" where
  "makeQuoteParams env req fromMainnetCode toMainnetCode tun =
     \<lparr> sellAsset = fromMainnetCode @ ''.'' @ fromCurrencyCode req
         @ (case tokenIdOf (fromWallet req) fromMainnetCode (fromCurrencyCode req) of
              None \<Rightarrow> [] | Some t \<Rightarrow> t),
       buyAsset = toMainnetCode @ ''.'' @ toCurrencyCode req
         @ (case tokenIdOf (toWallet req) toMainnetCode (toCurrencyCode req) of
              None \<Rightarrow> [] | Some t \<Rightarrow> t),
       sellAmount = nativeToDenomination (fromWallet req) (reqNativeAmount req)
                      (fromCurrencyCode req),
       slippage = tDaVolatilitySpread tun * 100,
       recipientAddress = utilsGetAddress env (toWallet req),
       senderAddress = utilsGetAddress env (fromWallet req),
       affiliateAddress = thorname env,
       affiliateBasisPoints = affiliateFeeBasis env \<rparr>"

text \<open>
  Lines 243-275: the two fetches are issued together; then a rejection, a response that is
  not \<^verbatim>\<open>ok\<close> and a body that does not clean are looked at in this order, the inbound
  addresses before the quote each time.
\<close>

definition joinResponses ::
  "inboundAddress list wreply \<Rightarrow> thorSwapRoute list wreply
     \<Rightarrow> error + (inboundAddress list \<times> thorSwapRoute list)" where
  "joinResponses ia ts =
     (case ia of
        WRejects e \<Rightarrow> Inl e
      | WNotOk text \<Rightarrow>
          (case ts of
             WRejects e \<Rightarrow> Inl e
           | _ \<Rightarrow> Inl (Error (''Thorchain could not fetch inbound_addresses: '' @ text)))
      | WBadJson e \<Rightarrow>
          (case ts of
             WRejects e' \<Rightarrow> Inl e'
           | WNotOk text \<Rightarrow> Inl (Error (''Thorchain could not get thorswap quote: '' @ text))
           | _ \<Rightarrow> Inl e)
      | WOk inboundAddresses \<Rightarrow>
          (case ts of
             WRejects e \<Rightarrow> Inl e
           | WNotOk text \<Rightarrow> Inl (Error (''Thorchain could not get thorswap quote: '' @ text))
           | WBadJson e \<Rightarrow> Inl e
           | WOk routes \<Rightarrow> Inr (inboundAddresses, routes)))"

text \<open>
  Lines 285-302: the first route, the cleaning of its call data, and the hop count.
\<close>

definition selectRoute ::
  "request \<Rightarrow> thorSwapRoute list \<Rightarrow> error + (thorSwapRoute \<times> calldataMemo)" where
  "selectRoute req routes =
     (case routes of
        [] \<Rightarrow> Inl (daCurrencyError req)
      | thorSwap # rest \<Rightarrow>
          (case asCalldata (calldata thorSwap) of
             Inl e \<Rightarrow> Inl e
           | Inr cd \<Rightarrow>
               if length (providers thorSwap) \<le> 1 then Inl (daCurrencyError req)
               else Inr (thorSwap, cd)))"

text \<open>\<^verbatim>\<open>providers[0] === 'THORCHAIN'\<close>, line 304.\<close>

definition tcDirect :: "thorSwapRoute \<Rightarrow> bool" where
  "tcDirect thorSwap = (case providers thorSwap of [] \<Rightarrow> False | p # ps \<Rightarrow> p = ''THORCHAIN'')"

text \<open>biggystring \<^verbatim>\<open>toFixed(x, 0, 0)\<close>: the digits before the decimal point.\<close>

definition toFixed00 :: "amount \<Rightarrow> amount" where
  "toFixed00 x = (if 0 \<le> x then of_int \<lfloor>x\<rfloor> else - of_int \<lfloor>- x\<rfloor>)"

text \<open>\<^verbatim>\<open>'0x' + Buffer.from(memo).toString('hex')\<close>, line 392.\<close>

definition hexDigit :: "nat \<Rightarrow> char" where
  "hexDigit n = ''0123456789abcdef'' ! (n mod 16)"

definition toHex :: "string \<Rightarrow> string" where
  "toHex s = concat (map (\<lambda>c. [hexDigit (of_char c div 16), hexDigit (of_char c mod 16)]) s)"

text \<open>
  Lines 344-399: the memo or call data, the native amount and the destination of the main
  spend, and the approval data when there is one. \<^verbatim>\<open>getEvmTokenData\<close> is handed
  \<^verbatim>\<open>Number(nativeAmount)\<close>; its arguments record the amount the number is made from.
\<close>

record memoPlan =
  mpMemo :: string
  mpEthNativeAmount :: amount
  mpPublicAddress :: "string option"
  mpApprovalData :: "string option"

definition buildMemo ::
  "thor_env \<Rightarrow> request \<Rightarrow> string \<Rightarrow> inboundAddress \<Rightarrow> thorSwapRoute \<Rightarrow> string
     \<Rightarrow> error + memoPlan" where
  "buildMemo env req fromMainnetCode inAddressObject thorSwap memo0 =
     (let contractAddress =
            (if tcDirect thorSwap then iaRouter inAddressObject else contract thorSwap) in
      if EVM_CURRENCY_CODES env fromMainnetCode then
        if fromMainnetCode \<noteq> fromCurrencyCode req then
          (case contractAddress of
             None \<Rightarrow> Inl (Error (''Missing router address for '' @ fromMainnetCode))
           | Some ca \<Rightarrow>
               (case sourceTokenContractAddress req fromMainnetCode of
                  None \<Rightarrow>
                    Inl (Error (''Missing sourceTokenContractAddress for '' @ fromMainnetCode))
                | Some sa \<Rightarrow>
                    (case (if tcDirect thorSwap then
                             getEvmTokenData env
                               \<lparr> etAssetAddress = sa, etAmountToSwapWei = reqNativeAmount req,
                                 etContractAddress = ca,
                                 etVaultAddress = iaAddress inAddressObject, etMemo = memo0 \<rparr>
                           else
                             (case contractMethod thorSwap of
                                None \<Rightarrow> Inl (Error ''Invalid null contractMethod'')
                              | Some cm \<Rightarrow>
                                  getCalldataData env (pluginId (fromWallet req)) ca cm
                                    (calldata thorSwap))) of
                       Inl e \<Rightarrow> Inl e
                     | Inr memoData \<Rightarrow>
                         (case getEvmApprovalData env
                                 \<lparr> eaContractAddress = tokenProxyMap (pluginId (fromWallet req)),
                                   eaAssetAddress = sa,
                                   eaNativeAmount = reqNativeAmount req \<rparr> of
                            Inl e \<Rightarrow> Inl e
                          | Inr approvalData \<Rightarrow>
                              Inr \<lparr> mpMemo = memoData, mpEthNativeAmount = 0,
                                    mpPublicAddress = Some ca,
                                    mpApprovalData = approvalData \<rparr>))))
        else
          Inr \<lparr> mpMemo = ''0x'' @ toHex memo0, mpEthNativeAmount = reqNativeAmount req,
                mpPublicAddress = Some (iaAddress inAddressObject), mpApprovalData = None \<rparr>
      else
        if fromMainnetCode \<noteq> fromCurrencyCode req then Inl (daCurrencyError req)
        else
          Inr \<lparr> mpMemo = memo0, mpEthNativeAmount = reqNativeAmount req,
                mpPublicAddress = Some (iaAddress inAddressObject), mpApprovalData = None \<rparr>)"

text \<open>Lines 401-418: the approval spend, when there is approval data.\<close>

definition approvalSpendInfo :: "request \<Rightarrow> string \<Rightarrow> string \<Rightarrow> spendInfo" where
  "approvalSpendInfo req fromMainnetCode approvalData =
     \<lparr> currencyCode = fromMainnetCode,
       spendTargets = [\<lparr> memo = Some approvalData, nativeAmount = 0,
                         publicAddress = sourceTokenContractAddress req fromMainnetCode,
                         uniqueIdentifier = None \<rparr>],
       networkFeeOption = None,
       swapData = None,
       metadata = Some (''Thorchain DEX Aggregator'', ''expense:Token Approval''),
       customNetworkFee = None, otherParams = [] \<rparr>"

definition makePreTx :: "request \<Rightarrow> string \<Rightarrow> string option \<Rightarrow> error + transaction option" where
  "makePreTx req fromMainnetCode approvalData =
     (case approvalData of
        None \<Rightarrow> Inr None
      | Some a \<Rightarrow>
          (case makeSpend (fromWallet req) (approvalSpendInfo req fromMainnetCode a) of
             Inl e \<Rightarrow> Inl e
           | Inr tx \<Rightarrow> Inr (Some tx)))"

text \<open>\<^verbatim>\<open>providers.join(' -> ')\<close>, line 457.\<close>

fun join :: "string \<Rightarrow> string list \<Rightarrow> string" where
  "join sep [] = []"
| "join sep [x] = x"
| "join sep (x # y # ys) = x @ sep @ join sep (y # ys)"

text \<open>The swap order returned, lines 460-468.\<close>

record swapOrder =
  soRequest :: request
  soSpendInfo :: spendInfo
  soSwapInfo :: string
  soFromNativeAmount :: amount
  soExpirationDate :: int
  preTx :: "transaction option"
  metadataNotes :: string

text \<open>Lines 420-455: the main spend, with the gas limit for the mainnet coin of an EVM chain.\<close>

definition mainSpendInfo ::
  "thor_env \<Rightarrow> request \<Rightarrow> string \<Rightarrow> thorSwapRoute \<Rightarrow> memoPlan \<Rightarrow> spendInfo" where
  "mainSpendInfo env req fromMainnetCode thorSwap plan =
     \<lparr> currencyCode = fromCurrencyCode req,
       spendTargets = [\<lparr> memo = Some (mpMemo plan), nativeAmount = mpEthNativeAmount plan,
                         publicAddress = mpPublicAddress plan, uniqueIdentifier = None \<rparr>],
       networkFeeOption = None,
       swapData = Some \<lparr> orderId = None, orderUri = None, isEstimate = False,
                     payoutAddress = utilsGetAddress env (toWallet req),
                     payoutCurrencyCode = toCurrencyCode req,
                     payoutNativeAmount =
                       toFixed00 (denominationToNative (toWallet req)
                                    (expectedOutputMaxSlippage thorSwap) (toCurrencyCode req)),
                     payoutWalletId = walletId (toWallet req), plugin = daPluginId,
                     refundAddress = None \<rparr>,
       metadata = None,
       customNetworkFee =
         (if EVM_CURRENCY_CODES env fromMainnetCode \<and> fromMainnetCode = fromCurrencyCode req
          then (case getGasLimit env fromMainnetCode (fromCurrencyCode req) of
                  None \<Rightarrow> None
                | Some gasLimit \<Rightarrow> Some [(''gasLimit'', gasLimit)])
          else None),
       otherParams = [(''outputSort'', ''targets'')] \<rparr>"

text \<open>
  Lines 304-468, for the inbound address of the source chain and the route that has passed
  the hop check: the memo, the spends and the order. \<open>now2\<close> is the clock at line 465.
\<close>

definition buildOrder ::
  "thor_env \<Rightarrow> int \<Rightarrow> request \<Rightarrow> string \<Rightarrow> inboundAddress \<Rightarrow> thorSwapRoute \<Rightarrow> calldataMemo
     \<Rightarrow> error + swapOrder" where
  "buildOrder env now2 req fromMainnetCode inAddressObject thorSwap cd =
     (let memo0 = (case tcMemo cd of
                     Some m \<Rightarrow> m
                   | None \<Rightarrow> (case cdMemo cd of Some m \<Rightarrow> m | None \<Rightarrow> [])) in
      case buildMemo env req fromMainnetCode inAddressObject thorSwap memo0 of
        Inl e \<Rightarrow> Inl e
      | Inr plan \<Rightarrow>
          (case makePreTx req fromMainnetCode (mpApprovalData plan) of
             Inl e \<Rightarrow> Inl e
           | Inr pre \<Rightarrow>
               Inr \<lparr> soRequest = req,
                     soSpendInfo = mainSpendInfo env req fromMainnetCode thorSwap plan,
                     soSwapInfo = daPluginId,
                     soFromNativeAmount = reqNativeAmount req,
                     soExpirationDate = now2 + EXPIRATION_MS env,
                     preTx = pre,
                     metadataNotes = ''DEX Providers: '' @ join '' -> '' (providers thorSwap)
                                      @ ''\<newline>Path: '' @ path thorSwap \<rparr>))"

text \<open>
  Lines 277-468, once both bodies are cleaned: the inbound address of the source chain,
  the route, and the order built for them.
\<close>

definition assemble ::
  "thor_env \<Rightarrow> int \<Rightarrow> request \<Rightarrow> string \<Rightarrow> inboundAddress list \<Rightarrow> thorSwapRoute list
     \<Rightarrow> error + swapOrder" where
  "assemble env now2 req fromMainnetCode inboundAddresses routes =
     (case find (\<lambda>addrObj. \<not> iaHalted addrObj \<and> iaChain addrObj = fromMainnetCode)
             inboundAddresses of
        None \<Rightarrow> Inl (daCurrencyError req)
      | Some inAddressObject \<Rightarrow>
          (case selectRoute req routes of
             Inl e \<Rightarrow> Inl e
           | Inr (thorSwap, cd) \<Rightarrow>
               buildOrder env now2 req fromMainnetCode inAddressObject thorSwap cd))"

text \<open>
  Lines 204-468, for the spread and servers in use: the refusal of a reverse quote, the
  two fetches, and the assembly.
\<close>

definition quoteWithTuning ::
  "thor_env \<Rightarrow> int \<Rightarrow> request \<Rightarrow> string \<Rightarrow> string \<Rightarrow> tuning \<Rightarrow> thorCall list
     \<Rightarrow> (error + swapOrder) \<times> thorCall list" where
  "quoteWithTuning env now2 req fromMainnetCode toMainnetCode tun tr =
     (if quoteFor req = QuoteTo then (Inl (daCurrencyError req), tr)
      else
        (let iaCall = InboundCall (tThornodeServers tun);
             tsCall = QuoteCall (tThorswapServers tun)
                        (makeQuoteParams env req fromMainnetCode toMainnetCode tun);
             tr2 = tr @ [iaCall, tsCall] in
         case joinResponses (inboundReply env tr iaCall) (quoteReply env (tr @ [iaCall]) tsCall) of
           Inl e \<Rightarrow> (Inl e, tr2)
         | Inr (inboundAddresses, routes) \<Rightarrow>
             (assemble env now2 req fromMainnetCode inboundAddresses routes, tr2)))"

text \<open>
  \<^verbatim>\<open>fetchSwapQuoteInner\<close> of the plugin: \<open>now\<close> is the clock at line 172, \<open>c\<close> the module
  variables and \<open>tr\<close> the calls issued so far; both are returned as the call leaves them.
\<close>

definition daFetchSwapQuoteInner ::
  "thor_env \<Rightarrow> int \<Rightarrow> int \<Rightarrow> request \<Rightarrow> cache \<Rightarrow> thorCall list
     \<Rightarrow> (error + swapOrder) \<times> cache \<times> thorCall list" where
  "daFetchSwapQuoteInner env now now2 req c tr =
     (case preflight env req of
        Inl e \<Rightarrow> (Inl e, c, tr)
      | Inr (fromMainnetCode, toMainnetCode) \<Rightarrow>
          (case refreshExchangeInfo env now c tr of
             (c1, tr1) \<Rightarrow>
               (case quoteWithTuning env now2 req fromMainnetCode toMainnetCode
                       (tuningOf env c1) tr1 of
                  (res, tr2) \<Rightarrow> (res, c1, tr2))))"

section \<open>Observations on the calls issued, and sample environments\<close>

definition isOrderCall :: "call \<Rightarrow> bool" where
  "isOrderCall c = (case c of OrderCall b \<Rightarrow> True | RateCall m a f t fn tn \<Rightarrow> False)"

definition callMode :: "call \<Rightarrow> mode" where
  "callMode c = (case c of RateCall m a f t fn tn \<Rightarrow> m | OrderCall b \<Rightarrow> obMode b)"

definition callAmount :: "call \<Rightarrow> amount" where
  "callAmount c = (case c of RateCall m a f t fn tn \<Rightarrow> a | OrderCall b \<Rightarrow> obAmount b)"

definition isBelowLimitError :: "error + 'a \<Rightarrow> bool" where
  "isBelowLimitError r = (case r of Inl (SwapBelowLimitError p a) \<Rightarrow> True | _ \<Rightarrow> False)"

text \<open>
  How biggystring, on bn.js 4, reads a text without a decimal point that holds a
  hexadecimal letter, as the \<^verbatim>\<open>e\<close> of an exponent is: in base 16, a character that is
  no hexadecimal digit counting for the low four bits of its code less 48, which is 11 for
  \<^verbatim>\<open>+\<close> and 13 for \<^verbatim>\<open>-\<close>. So \<^verbatim>\<open>1e+21\<close> is read as \<^verbatim>\<open>0x1eb21\<close> and
  \<^verbatim>\<open>1e-7\<close> as \<^verbatim>\<open>0x1ed7\<close>.
\<close>

definition hexDigitRead :: "char \<Rightarrow> nat" where
  "hexDigitRead c =
     (case map_of (zip ''0123456789e+-'' [0, 1, 2, 3, 4, 5, 6, 7, 8, 9, 14, 11, 13]) c of
        Some d \<Rightarrow> d
      | None \<Rightarrow> 0)"

definition hexRead :: "string \<Rightarrow> nat" where
  "hexRead t = foldl (\<lambda>r c. r * 16 + hexDigitRead c) 0 t"

text \<open>
  A wallet whose denomination has two decimals, a request between two such wallets, and a
  stub of the remote service: the rate query answers by mode, and every order realises
  \<open>out\<close> of the amount sent. The wallet and biggystring read a text in exponent notation
  as above.
\<close>

definition demoWallet :: "string \<Rightarrow> string \<Rightarrow> string \<Rightarrow> wallet" where
  "demoWallet wid pid addr =
     \<lparr> walletId = wid, pluginId = pid,
       getReceiveAddress = (\<lambda>cc. \<lparr> legacyAddress = None, publicAddress = addr \<rparr>),
       nativeToDenomination = (\<lambda>a cc. a / 100),
       denominationToNative = (\<lambda>a cc. a * 100),
       denominationToNativeText = (\<lambda>t cc. Inr (of_nat (hexRead t) * 100)),
       tokenId = (\<lambda>cc. if cc = ''USDC'' then Some ''a0b86991'' else None),
       makeSpend = (\<lambda>s. Inr (Transaction ''tx'')) \<rparr>"

definition demoRequest :: "quoteFor \<Rightarrow> amount \<Rightarrow> request" where
  "demoRequest qf a =
     \<lparr> fromWallet = demoWallet ''w1'' ''bitcoin'' ''addr1'',
       toWallet = demoWallet ''w2'' ''ethereum'' ''addr2'',
       fromCurrencyCode = ''BTC'', toCurrencyCode = ''ETH'',
       reqNativeAmount = a, quoteFor = qf \<rparr>"

definition demoZcashRequest :: request where
  "demoZcashRequest =
     \<lparr> fromWallet = demoWallet ''w1'' ''bitcoin'' ''addr1'',
       toWallet = demoWallet ''w4'' ''zcash'' ''addr4'',
       fromCurrencyCode = ''BTC'', toCurrencyCode = ''ZEC'',
       reqNativeAmount = 100000, quoteFor = QuoteFrom \<rparr>"

definition stubEnv :: "(mode \<Rightarrow> getRate reply) \<Rightarrow> (amount \<Rightarrow> amount) \<Rightarrow> swapuz_env" where
  "stubEnv rate out =
     \<lparr> rateReply = (\<lambda>tr c. rate (callMode c)),
       orderReply = (\<lambda>tr c. case c of
           OrderCall b \<Rightarrow> Result \<lparr> uid = ''order'', coAmount = Plain (obAmount b),
              amountResult = Plain (out (obAmount b)), addressFrom = ''deposit'', addressTo = obAddress b,
              memoFrom = None, finishPayment = 0 \<rparr>
         | RateCall m a f t fn tn \<Rightarrow> NoResult),
       getCodesWithMainnetTranscription = (\<lambda>r. \<lparr> cFromCurrencyCode = fromCurrencyCode r,
           cToCurrencyCode = toCurrencyCode r, cFromMainnetCode = ''BTC'', cToMainnetCode = ''ETH'' \<rparr>),
       ensureInFuture = (\<lambda>d. d),
       gtText = (\<lambda>t y. Inr (y < of_nat (hexRead t))) \<rparr>"

definition isFixRate :: "call \<Rightarrow> bool" where
  "isFixRate c = (case c of RateCall m a f t fn tn \<Rightarrow> m = Fix | OrderCall b \<Rightarrow> False)"

definition countFix :: "call list \<Rightarrow> nat" where
  "countFix tr = length (filter isFixRate tr)"

definition zeroOutputEnv :: swapuz_env where
  "zeroOutputEnv = stubEnv (\<lambda>m. Result \<lparr> minAmount = Plain 0 \<rparr>) (\<lambda>a. 0)"


definition highMinimumEnv :: swapuz_env where
  "highMinimumEnv = stubEnv (\<lambda>m. Result \<lparr> minAmount = Plain (1 / 2) \<rparr>) (\<lambda>a. a)"


definition hugeMinimumEnv :: swapuz_env where
  "hugeMinimumEnv =
     stubEnv (\<lambda>m. Result \<lparr> minAmount = Exponent (10 ^ 21) ''1e+21'' \<rparr>) (\<lambda>a. a)"

definition tinyMinimumEnv :: swapuz_env where
  "tinyMinimumEnv =
     stubEnv (\<lambda>m. Result \<lparr> minAmount = Exponent (1 / 10 ^ 7) ''1e-7'' \<rparr>) (\<lambda>a. a)"

definition bothFailEnv :: swapuz_env where
  "bothFailEnv = stubEnv (\<lambda>m. case m of Fix \<Rightarrow> NotOk 500 | Float \<Rightarrow> NotOk 404) (\<lambda>a. a)"

text \<open>
  For the aggregator: a request that sells the token USDC of an Ethereum wallet for
  bitcoin, a route, and an environment whose services answer with the given exchange-info
  reply and routes. Its interface table registers one contract of type
  \<^verbatim>\<open>'INVALID'\<close>, one of a type that is in the template table and one of a type that is
  not.
\<close>

definition refreshFailed :: "infoReply \<Rightarrow> bool" where
  "refreshFailed r = (case r of InfoOk info \<Rightarrow> False | _ \<Rightarrow> True)"

definition demoTokenRequest :: "quoteFor \<Rightarrow> amount \<Rightarrow> request" where
  "demoTokenRequest qf a =
     \<lparr> fromWallet = demoWallet ''w2'' ''ethereum'' ''0xsender'',
       toWallet = demoWallet ''w1'' ''bitcoin'' ''bc1recipient'',
       fromCurrencyCode = ''USDC'', toCurrencyCode = ''BTC'',
       reqNativeAmount = a, quoteFor = qf \<rparr>"

definition demoRoute :: "string list \<Rightarrow> json \<Rightarrow> thorSwapRoute" where
  "demoRoute provs cd =
     \<lparr> contract = Some ''0xBBBB'', contractMethod = Some ''swapIn'', contractInfo = None,
       complete = True, path = ''ETH.USDC -> ETH.ETH -> BTC.BTC'', providers = provs,
       calldata = cd, expectedOutput = 2, expectedOutputMaxSlippage = 19 / 10,
       expectedOutputUSD = 2, expectedOutputMaxSlippageUSD = 19 / 10, deadline = None \<rparr>"

definition demoInbound :: "inboundAddress list" where
  "demoInbound =
     [\<lparr> iaAddress = ''bc1vault'', iaChain = ''BTC'', iaHalted = False, iaRouter = None \<rparr>,
      \<lparr> iaAddress = ''0xvault'', iaChain = ''ETH'', iaHalted = False,
        iaRouter = Some ''0xrouter'' \<rparr>]"

definition demoAbiMap :: "string \<Rightarrow> (string \<Rightarrow> abiEntry option) option" where
  "demoAbiMap p =
     (if p = ''ethereum'' then
        Some (\<lambda>a. if a = ''0xaaaa'' then Some \<lparr> abiType = ''INVALID'', abiData = JNull \<rparr>
                  else if a = ''0xbbbb'' then
                    Some \<lparr> abiType = ''TC_ROUTER_GENERIC'', abiData = JArray [] \<rparr>
                  else if a = ''0xcccc'' then
                    Some \<lparr> abiType = ''TC_ROUTER_SUSHI'', abiData = JArray [] \<rparr>
                  else None)
      else None)"

definition demoThorEnv :: "infoReply \<Rightarrow> thorSwapRoute list \<Rightarrow> thor_env" where
  "demoThorEnv info routes =
     \<lparr> appId = ''edge'', affiliateFeeBasis = ''50'', thorname = ''ej'',
       EVM_CURRENCY_CODES = (\<lambda>c. c = ''ETH'' \<or> c = ''AVAX''),
       EXCHANGE_INFO_UPDATE_FREQ_MS = 60000, EXPIRATION_MS = 60000,
       getGasLimit = (\<lambda>m c. Some ''80000''),
       INVALID_CURRENCY_CODES_da_from = (\<lambda>p. []),
       INVALID_CURRENCY_CODES_da_to = (\<lambda>p. []),
       MAINNET_CODE_TRANSCRIPTION =
         (\<lambda>p. if p = ''bitcoin'' then Some ''BTC''
               else if p = ''ethereum'' then Some ''ETH'' else None),
       THORNODE_SERVERS_DEFAULT = [''https://thornode.example''],
       utilsGetAddress = (\<lambda>w. addressInfo.publicAddress (getReceiveAddress w [])),
       getEvmTokenData = (\<lambda>a. Inr ''0xdepositcall''),
       getEvmApprovalData = (\<lambda>a. Inr (Some ''0xapprovecall'')),
       abiMap = demoAbiMap,
       populateTransaction = (\<lambda>a abi m ps. Inr (Some ''0xswapcall'')),
       infoReply = (\<lambda>tr c. info),
       inboundReply = (\<lambda>tr c. WOk demoInbound),
       quoteReply = (\<lambda>tr c. WOk routes) \<rparr>"

definition emptyCache :: cache where
  "emptyCache = \<lparr> exchangeInfo = None, exchangeInfoLastUpdate = 0 \<rparr>"

definition demoTwoHopRoute :: thorSwapRoute where
  "demoTwoHopRoute =
     demoRoute [''UNISWAP'', ''THORCHAIN'']
       (JObject [(''tcMemo'', JString ''=:BTC.BTC:bc1recipient'')])"

definition demoSameRequest :: request where
  "demoSameRequest =
     \<lparr> fromWallet = demoWallet ''w1'' ''bitcoin'' ''bc1sender'',
       toWallet = demoWallet ''w3'' ''bitcoin'' ''bc1recipient'',
       fromCurrencyCode = ''BTC'', toCurrencyCode = ''BTC'',
       reqNativeAmount = 100000, quoteFor = QuoteFrom \<rparr>"

definition isSwapCurrencyError :: "error + 'a \<Rightarrow> bool" where
  "isSwapCurrencyError r =
     (case r of Inl (SwapCurrencyError p f t) \<Rightarrow> True | _ \<Rightarrow> False)"

section \<open>Swapuz: the claims\<close>

lemma getQuote_calls:
  "snd (getQuote env req m tr) = tr @ [rateCall env req m]
   \<or> snd (getQuote env req m tr) = tr @ [rateCall env req m, orderCall env req m]"
  by (simp add: getQuote_def Let_def split: reply.splits sum.splits bool.splits)

lemma callMode_rateCall [simp]: "callMode (rateCall env req m) = m"
  by (simp add: callMode_def rateCall_def Let_def)

lemma callMode_orderCall [simp]: "callMode (orderCall env req m) = m"
  by (simp add: callMode_def orderCall_def Let_def)

lemma isFixRate_rateCall [simp]: "isFixRate (rateCall env req m) = (m = Fix)"
  by (simp add: isFixRate_def rateCall_def Let_def)

lemma isFixRate_orderCall [simp]: "isFixRate (orderCall env req m) = False"
  by (simp add: isFixRate_def orderCall_def Let_def)

lemma isOrderCall_rateCall [simp]: "isOrderCall (rateCall env req m) = False"
  by (simp add: isOrderCall_def rateCall_def Let_def)

lemma countFix_getQuote:
  "countFix (snd (getQuote env req m tr)) = countFix tr + (if m = Fix then 1 else 0)"
  using getQuote_calls [of env req m tr] by (auto simp: countFix_def)

lemma countFix_inner:
  "countFix (snd (fetchSwapQuoteInner env req tr)) \<le> countFix tr + 1"
proof -
  obtain r1 t1 where g1: "getQuote env req Fix tr = (r1, t1)" by (cases "getQuote env req Fix tr")
  obtain r2 t2 where g2: "getQuote env req Float t1 = (r2, t2)" by (cases "getQuote env req Float t1")
  have c1: "countFix t1 = countFix tr + 1"
    using countFix_getQuote [of env req Fix tr] g1 by simp
  have c2: "countFix t2 = countFix t1"
    using countFix_getQuote [of env req Float t1] g2 by simp
  show ?thesis
    using c1 c2 g1 g2 by (simp add: fetchSwapQuoteInner_def split: option.splits sum.splits)
qed

lemma countFix_solve:
  "countFix (snd (solve env req tgt retries cand tr)) \<le> countFix tr + (retries - 1)"
proof (induction env req tgt retries cand tr rule: solve.induct)
  case (1 env req tgt retries cand tr)
  show ?case
  proof (cases "retries - 1 = 0")
    case True
    then show ?thesis by (subst solve.simps) simp
  next
    case False
    obtain r t' where inner:
      "fetchSwapQuoteInner env (req\<lparr>reqNativeAmount := cand\<rparr>) tr = (r, t')"
      by (cases "fetchSwapQuoteInner env (req\<lparr>reqNativeAmount := cand\<rparr>) tr")
    have step: "countFix t' \<le> countFix tr + 1"
      using countFix_inner [of env "req\<lparr>reqNativeAmount := cand\<rparr>" tr] inner by simp
    show ?thesis
    proof (cases r)
      case (Inl e)
      with False inner step show ?thesis by (subst solve.simps) simp
    next
      case (Inr q)
      let ?real = "nativeToDenomination (toWallet req) (toNativeAmount q) (toCurrencyCode req)"
      show ?thesis
      proof (cases "gte ?real tgt")
        case True
        with False inner step Inr show ?thesis by (subst solve.simps) (simp add: Let_def)
      next
        case ng: False
        show ?thesis
        proof (cases "div18 (sub tgt ?real) tgt")
          case (Inl e)
          with False inner step Inr ng show ?thesis by (subst solve.simps) (simp add: Let_def)
        next
          case d: (Inr pd)
          have ih: "countFix (snd (solve env req tgt (retries - 1) (mul (add (1001 / 1000) pd) cand) t'))
                     \<le> countFix t' + (retries - 1 - 1)"
            using "1.IH" [OF False inner [symmetric] Inr refl ng d] .
          have "solve env req tgt retries cand tr
                = solve env req tgt (retries - 1) (mul (add (1001 / 1000) pd) cand) t'"
            using False inner Inr ng d by (subst solve.simps) (simp add: Let_def)
          with ih step False show ?thesis by simp
        qed
      qed
    qed
  qed
qed

lemma fetchSwapQuote_at_most_four:
  "countFix (snd (fetchSwapQuote env req tr)) \<le> countFix tr + 4"
proof (cases "quoteFor req = QuoteFrom")
  case True
  then show ?thesis
    using countFix_inner [of env req tr] by (simp add: fetchSwapQuote_def)
next
  case False
  then show ?thesis
    using countFix_solve [of env "req\<lparr>quoteFor := QuoteFrom\<rparr>" _ 5 "reqNativeAmount req" tr]
    by (simp add: fetchSwapQuote_def)
qed


lemma getQuote_extends:
  "\<exists>cs. snd (getQuote env req m tr) = tr @ rateCall env req m # cs \<and> list_all (\<lambda>c. callMode c = m) cs"
  using getQuote_calls [of env req m tr] by auto

lemma inner_extends:
  assumes "quoteFor req \<noteq> QuoteTo"
      and "checkInvalidCodes INVALID_CURRENCY_CODES_from INVALID_CURRENCY_CODES_to req swapuzPluginId = None"
  shows "\<exists>cs. snd (fetchSwapQuoteInner env req tr) = tr @ rateCall env req Fix # cs"
proof -
  obtain r1 t1 where g1: "getQuote env req Fix tr = (r1, t1)" by (cases "getQuote env req Fix tr")
  obtain r2 t2 where g2: "getQuote env req Float t1 = (r2, t2)" by (cases "getQuote env req Float t1")
  obtain cs1 where c1: "t1 = tr @ rateCall env req Fix # cs1"
    using getQuote_extends [of env req Fix tr] g1 by auto
  obtain cs2 where c2: "t2 = t1 @ rateCall env req Float # cs2"
    using getQuote_extends [of env req Float t1] g2 by auto
  show ?thesis
    using assms g1 g2 c1 c2 by (auto simp: fetchSwapQuoteInner_def split: sum.splits)
qed



lemma checks_amount [simp]:
  "checkInvalidCodes f t (req\<lparr>reqNativeAmount := a\<rparr>) p = checkInvalidCodes f t req p"
  by (simp add: checkInvalidCodes_def)






text \<open>
  When the minimum of the rate response is a number rendered in plain decimal notation and
  is strictly greater than the requested amount, the attempt fails with
  \<open>SwapBelowLimitError\<close> carrying the minimum converted to native units by the source
  wallet, and it has issued the rate query only.
\<close>

lemma getQuote_below_plain_minimum:
  assumes "rateReply env tr (rateCall env req m) = Result rate"
      and "minAmount rate = Plain least"
      and "largeDenomAmount env req < least"
  shows "getQuote env req m tr =
           (Inl (SwapBelowLimitError swapuzPluginId
                  (denominationToNative (fromWallet req) least
                     (cFromCurrencyCode (getCodesWithMainnetTranscription env req)))),
            tr @ [rateCall env req m])
         \<and> filter isOrderCall (drop (length tr) (snd (getQuote env req m tr))) = []"
  using assms by (simp add: getQuote_def Let_def gt_def gtNumber_def numberToNative_def)

text \<open>
  Claim C3. A request refused by one of the two checks that precede the attempts issues no
  call at all. For any other request the first call issued is the fixed-rate query; when
  the fixed-rate attempt succeeds its quote is the result and every call issued is a
  fixed-rate one, so the floating-rate attempt is made only after the fixed-rate attempt
  has failed; when the fixed-rate attempt fails the result is the floating-rate quote if
  there is one, and otherwise the error of the fixed-rate attempt.
\<close>

theorem fix_before_float:
  assumes "getQuote env req Fix tr = (r1, tr1)"
      and "getQuote env req Float tr1 = (r2, tr2)"
  shows "(quoteFor req = QuoteTo
            \<or> checkInvalidCodes INVALID_CURRENCY_CODES_from INVALID_CURRENCY_CODES_to req
                 swapuzPluginId \<noteq> None
          \<longrightarrow> snd (fetchSwapQuoteInner env req tr) = tr)
       \<and> (quoteFor req \<noteq> QuoteTo
            \<and> checkInvalidCodes INVALID_CURRENCY_CODES_from INVALID_CURRENCY_CODES_to req
                 swapuzPluginId = None
          \<longrightarrow> (\<exists>cs. snd (fetchSwapQuoteInner env req tr) = tr @ rateCall env req Fix # cs)
            \<and> (\<forall>q. r1 = Inr q \<longrightarrow>
                  fetchSwapQuoteInner env req tr = (Inr q, tr1)
                  \<and> list_all (\<lambda>c. callMode c = Fix)
                       (drop (length tr) (snd (fetchSwapQuoteInner env req tr))))
            \<and> (\<forall>e q. r1 = Inl e \<longrightarrow> r2 = Inr q \<longrightarrow>
                  fetchSwapQuoteInner env req tr = (Inr q, tr2))
            \<and> (\<forall>e e2. r1 = Inl e \<longrightarrow> r2 = Inl e2 \<longrightarrow>
                  fetchSwapQuoteInner env req tr = (Inl e, tr2)))"
proof -
  have refused: "snd (fetchSwapQuoteInner env req tr) = tr"
    if "quoteFor req = QuoteTo
        \<or> checkInvalidCodes INVALID_CURRENCY_CODES_from INVALID_CURRENCY_CODES_to req
             swapuzPluginId \<noteq> None"
    using that by (auto simp: fetchSwapQuoteInner_def split: option.splits)
  have attempted:
    "(\<exists>cs. snd (fetchSwapQuoteInner env req tr) = tr @ rateCall env req Fix # cs)
     \<and> (\<forall>q. r1 = Inr q \<longrightarrow>
           fetchSwapQuoteInner env req tr = (Inr q, tr1)
           \<and> list_all (\<lambda>c. callMode c = Fix)
                (drop (length tr) (snd (fetchSwapQuoteInner env req tr))))
     \<and> (\<forall>e q. r1 = Inl e \<longrightarrow> r2 = Inr q \<longrightarrow> fetchSwapQuoteInner env req tr = (Inr q, tr2))
     \<and> (\<forall>e e2. r1 = Inl e \<longrightarrow> r2 = Inl e2 \<longrightarrow> fetchSwapQuoteInner env req tr = (Inl e, tr2))"
    if checks: "quoteFor req \<noteq> QuoteTo"
         "checkInvalidCodes INVALID_CURRENCY_CODES_from INVALID_CURRENCY_CODES_to req
            swapuzPluginId = None"
  proof -
    obtain cs1 where c1: "tr1 = tr @ rateCall env req Fix # cs1"
        "list_all (\<lambda>c. callMode c = Fix) cs1"
      using getQuote_extends [of env req Fix tr] assms(1) by auto
    have first: "\<exists>cs. snd (fetchSwapQuoteInner env req tr) = tr @ rateCall env req Fix # cs"
      using inner_extends [OF checks] .
    have res: "fetchSwapQuoteInner env req tr =
                 (case r1 of Inr q \<Rightarrow> (Inr q, tr1)
                  | Inl e \<Rightarrow> (case r2 of Inr q \<Rightarrow> (Inr q, tr2) | Inl e2 \<Rightarrow> (Inl e, tr2)))"
      using assms checks by (simp add: fetchSwapQuoteInner_def split: sum.splits)
    show ?thesis using first res c1 by (auto split: sum.splits)
  qed
  show ?thesis
  proof (rule conjI)
    show "quoteFor req = QuoteTo
            \<or> checkInvalidCodes INVALID_CURRENCY_CODES_from INVALID_CURRENCY_CODES_to req
                 swapuzPluginId \<noteq> None
          \<longrightarrow> snd (fetchSwapQuoteInner env req tr) = tr"
      by (rule impI) (rule refused)
  next
    show "quoteFor req \<noteq> QuoteTo
            \<and> checkInvalidCodes INVALID_CURRENCY_CODES_from INVALID_CURRENCY_CODES_to req
                 swapuzPluginId = None
          \<longrightarrow> (\<exists>cs. snd (fetchSwapQuoteInner env req tr) = tr @ rateCall env req Fix # cs)
            \<and> (\<forall>q. r1 = Inr q \<longrightarrow>
                  fetchSwapQuoteInner env req tr = (Inr q, tr1)
                  \<and> list_all (\<lambda>c. callMode c = Fix)
                       (drop (length tr) (snd (fetchSwapQuoteInner env req tr))))
            \<and> (\<forall>e q. r1 = Inl e \<longrightarrow> r2 = Inr q \<longrightarrow>
                  fetchSwapQuoteInner env req tr = (Inr q, tr2))
            \<and> (\<forall>e e2. r1 = Inl e \<longrightarrow> r2 = Inl e2 \<longrightarrow>
                  fetchSwapQuoteInner env req tr = (Inl e, tr2))"
    proof (rule impI)
      assume c: "quoteFor req \<noteq> QuoteTo
            \<and> checkInvalidCodes INVALID_CURRENCY_CODES_from INVALID_CURRENCY_CODES_to req
                 swapuzPluginId = None"
      show "(\<exists>cs. snd (fetchSwapQuoteInner env req tr) = tr @ rateCall env req Fix # cs)
            \<and> (\<forall>q. r1 = Inr q \<longrightarrow>
                  fetchSwapQuoteInner env req tr = (Inr q, tr1)
                  \<and> list_all (\<lambda>c. callMode c = Fix)
                       (drop (length tr) (snd (fetchSwapQuoteInner env req tr))))
            \<and> (\<forall>e q. r1 = Inl e \<longrightarrow> r2 = Inr q \<longrightarrow>
                  fetchSwapQuoteInner env req tr = (Inr q, tr2))
            \<and> (\<forall>e e2. r1 = Inl e \<longrightarrow> r2 = Inl e2 \<longrightarrow>
                  fetchSwapQuoteInner env req tr = (Inl e, tr2))"
        using attempted [OF conjunct1 [OF c] conjunct2 [OF c]] .
    qed
  qed
qed

lemmas swapuz_eval =
  demoWallet_def demoRequest_def stubEnv_def fetchSwapQuote_def fetchSwapQuoteInner_def
  getQuote_def rateCall_def orderCall_def largeDenomAmount_def checkInvalidCodes_def
  INVALID_CURRENCY_CODES_from_def INVALID_CURRENCY_CODES_to_def gt_def gte_def add_def sub_def
  mul_def toAddress_def fromAddress_def getAddress_def makeSwapPluginQuote_def
  swapuzSpendInfo_def dontUseLegacy_def swapuzPluginId_def callMode_def Let_def
  gtNumber_def numberToNative_def div18_def trunc18_def requestToExchangeAmount_def



theorem fix_before_float_witness:
  "quoteFor (demoRequest QuoteFrom 100000) \<noteq> QuoteTo
   \<and> checkInvalidCodes INVALID_CURRENCY_CODES_from INVALID_CURRENCY_CODES_to
        (demoRequest QuoteFrom 100000) swapuzPluginId = None
   \<and> fst (getQuote bothFailEnv (demoRequest QuoteFrom 100000) Fix []) = Inl (StatusError 500)
   \<and> fst (getQuote bothFailEnv (demoRequest QuoteFrom 100000) Float
            (snd (getQuote bothFailEnv (demoRequest QuoteFrom 100000) Fix [])))
       = Inl (StatusError 404)
   \<and> fetchSwapQuoteInner bothFailEnv (demoRequest QuoteFrom 100000) []
       = (Inl (StatusError 500),
          [RateCall Fix 1000 ''BTC'' ''ETH'' ''BTC'' ''ETH'',
           RateCall Float 1000 ''BTC'' ''ETH'' ''BTC'' ''ETH''])
   \<and> checkInvalidCodes INVALID_CURRENCY_CODES_from INVALID_CURRENCY_CODES_to
        demoZcashRequest swapuzPluginId
       = Some (SwapCurrencyError ''swapuz'' ''BTC'' ''ZEC'')
   \<and> snd (fetchSwapQuoteInner bothFailEnv demoZcashRequest []) = []"
proof -
  let ?E = bothFailEnv and ?R = "demoRequest QuoteFrom 100000"
  let ?t1 = "[RateCall Fix 1000 ''BTC'' ''ETH'' ''BTC'' ''ETH'']"
  let ?t2 = "[RateCall Fix 1000 ''BTC'' ''ETH'' ''BTC'' ''ETH'',
              RateCall Float 1000 ''BTC'' ''ETH'' ''BTC'' ''ETH'']"
  have h1: "quoteFor ?R \<noteq> QuoteTo"
    by (simp add: demoRequest_def)
  have h2: "checkInvalidCodes INVALID_CURRENCY_CODES_from INVALID_CURRENCY_CODES_to ?R
              swapuzPluginId = None"
    by (simp add: swapuz_eval)
  have h3: "getQuote ?E ?R Fix [] = (Inl (StatusError 500), ?t1)"
    by (simp add: bothFailEnv_def swapuz_eval)
  have h4: "getQuote ?E ?R Float ?t1 = (Inl (StatusError 404), ?t2)"
    by (simp add: bothFailEnv_def swapuz_eval)
  have both: "fetchSwapQuoteInner ?E ?R [] = (Inl (StatusError 500), ?t2)"
    using fix_before_float [OF h3 h4] h1 h2 by simp
  have z: "checkInvalidCodes INVALID_CURRENCY_CODES_from INVALID_CURRENCY_CODES_to
             demoZcashRequest swapuzPluginId = Some (SwapCurrencyError ''swapuz'' ''BTC'' ''ZEC'')"
    by (simp add: demoZcashRequest_def swapuz_eval)
  obtain r1 t1 where g1: "getQuote ?E demoZcashRequest Fix [] = (r1, t1)"
    by (cases "getQuote ?E demoZcashRequest Fix []")
  obtain r2 t2 where g2: "getQuote ?E demoZcashRequest Float t1 = (r2, t2)"
    by (cases "getQuote ?E demoZcashRequest Float t1")
  have none: "snd (fetchSwapQuoteInner ?E demoZcashRequest []) = []"
    using fix_before_float [OF g1 g2] z by simp
  from h1 h2 h3 h4 both z none show ?thesis by simp
qed

text \<open>
  Claim C1. The loop counter starts at 5 and is decremented before it is tested, so the
  body runs while the counter is 4, 3, 2 and 1: whatever the remote service answers, the
  solver issues at most four fixed-rate queries, one per attempt
  (\<open>fetchSwapQuote_at_most_four\<close>). Here the service realises an output of 0 for every
  order and the target is 1000: the solver fails with \<open>SwapCurrencyError\<close> for the pair
  after four attempts, for the amounts 1000, 2001, 4004.001 and 8012.006001; each attempt
  is a rate query followed by an order creation. There is no fifth attempt.
\<close>

theorem fetchSwapQuote_zero_output_four_attempts:
  "fst (fetchSwapQuote zeroOutputEnv (demoRequest QuoteTo 100000) [])
     = Inl (SwapCurrencyError ''swapuz'' ''BTC'' ''ETH'')
   \<and> map (\<lambda>c. (callMode c, callAmount c, isOrderCall c))
        (snd (fetchSwapQuote zeroOutputEnv (demoRequest QuoteTo 100000) []))
     = [(Fix, 1000, False), (Fix, 1000, True),
        (Fix, 2001, False), (Fix, 2001, True),
        (Fix, 4004001 / 1000, False), (Fix, 4004001 / 1000, True),
        (Fix, 8012006001 / 1000000, False), (Fix, 8012006001 / 1000000, True)]
   \<and> countFix (snd (fetchSwapQuote zeroOutputEnv (demoRequest QuoteTo 100000) [])) = 4"
  by (simp add: zeroOutputEnv_def swapuz_eval solve.simps callAmount_def isOrderCall_def
        countFix_def isFixRate_def)

text \<open>
  Claim C7. A minimum of \<^verbatim>\<open>1e21\<close> is rendered as \<^verbatim>\<open>1e+21\<close>, which biggystring reads
  as \<^verbatim>\<open>0x1eb21\<close>, that is 125729: against a requested amount of 1000000, which is
  below the minimum, the comparison is false, the attempt does not fail with
  \<open>SwapBelowLimitError\<close>, and it goes on to create the order. A minimum of \<^verbatim>\<open>1e-7\<close> is
  rendered as \<^verbatim>\<open>1e-7\<close> and read as \<^verbatim>\<open>0x1ed7\<close>, that is 7895: against a requested
  amount of 1000 the attempt fails with \<open>SwapBelowLimitError\<close> carrying 789500. For a
  minimum rendered in plain decimal notation the attempt does what the claim says
  (\<open>getQuote_below_plain_minimum\<close>).
\<close>

theorem getQuote_exponent_minimum_misread:
  "rateReply hugeMinimumEnv [] (rateCall hugeMinimumEnv (demoRequest QuoteFrom 100000000) Fix)
     = Result \<lparr> minAmount = Exponent (10 ^ 21) ''1e+21'' \<rparr>
   \<and> numberValue (Exponent (10 ^ 21) ''1e+21'') = Some 1000000000000000000000
   \<and> largeDenomAmount hugeMinimumEnv (demoRequest QuoteFrom 100000000) = 1000000
   \<and> (1000000 :: rat) < 1000000000000000000000
   \<and> hexRead ''1e+21'' = 125729
   \<and> \<not> isBelowLimitError (fst (getQuote hugeMinimumEnv (demoRequest QuoteFrom 100000000) Fix []))
   \<and> map isOrderCall (snd (getQuote hugeMinimumEnv (demoRequest QuoteFrom 100000000) Fix []))
       = [False, True]
   \<and> hexRead ''1e-7'' = 7895
   \<and> getQuote tinyMinimumEnv (demoRequest QuoteFrom 100000) Fix []
       = (Inl (SwapBelowLimitError ''swapuz'' 789500),
          [RateCall Fix 1000 ''BTC'' ''ETH'' ''BTC'' ''ETH''])"
  by (simp add: hugeMinimumEnv_def tinyMinimumEnv_def swapuz_eval numberValue_def hexRead_def
        hexDigitRead_def isBelowLimitError_def isOrderCall_def)

section \<open>Thorchain DEX Aggregator: the claims\<close>

lemmas thor_eval =
  demoThorEnv_def demoTokenRequest_def demoRoute_def demoInbound_def demoAbiMap_def demoWallet_def
  emptyCache_def daFetchSwapQuoteInner_def preflight_def refreshExchangeInfo_def refreshAttempt_def
  tuningOf_def quoteWithTuning_def joinResponses_def assemble_def buildOrder_def selectRoute_def
  asCalldata_def isTypeofObject_def
  asOptionalString_def buildMemo_def tcDirect_def getCalldataData_def lookupAbi_def calldataOrder_def
  toLowerCase_def lowerChar_def makePreTx_def approvalSpendInfo_def mainSpendInfo_def
  makeQuoteParams_def tokenIdOf_def sourceTokenContractAddress_def daCurrencyError_def
  daPluginId_def checkInvalidCodes_def tokenProxyMap_def toFixed00_def jsonMember_def Let_def
  DA_VOLATILITY_SPREAD_DEFAULT_def THORSWAP_DEFAULT_SERVERS_def

text \<open>
  Claim C5. A request whose two wallets have the same currency plugin id and whose two
  currency codes are equal is refused with the plugin's \<open>SwapCurrencyError\<close> for the pair,
  whatever its amount; the module variables and the calls issued are as before the call,
  so no request has been sent.
\<close>

theorem same_asset_refused:
  assumes "pluginId (fromWallet req) = pluginId (toWallet req)"
      and "fromCurrencyCode req = toCurrencyCode req"
  shows "daFetchSwapQuoteInner env now now2 (req\<lparr>reqNativeAmount := a\<rparr>) c tr
           = (Inl (SwapCurrencyError daPluginId (fromCurrencyCode req) (toCurrencyCode req)), c, tr)"
  using assms by (simp add: daFetchSwapQuoteInner_def preflight_def daCurrencyError_def)

lemma preflight_error:
  "preflight env req = Inl e \<Longrightarrow> e = daCurrencyError req"
  by (auto simp: preflight_def checkInvalidCodes_def daCurrencyError_def
           split: if_splits option.splits)

text \<open>
  Claim C10. A request with \<^verbatim>\<open>quoteFor\<close> equal to \<^verbatim>\<open>'to'\<close> never yields a swap order:
  whatever the environment answers, the result is the plugin's \<open>SwapCurrencyError\<close> for
  the pair.
\<close>

theorem reverse_quote_refused:
  assumes "quoteFor req = QuoteTo"
  shows "fst (daFetchSwapQuoteInner env now now2 req c tr)
           = Inl (SwapCurrencyError daPluginId (fromCurrencyCode req) (toCurrencyCode req))"
proof (cases "preflight env req")
  case (Inl e)
  then show ?thesis
    using preflight_error [OF Inl] by (simp add: daFetchSwapQuoteInner_def daCurrencyError_def)
next
  case (Inr codes)
  then show ?thesis
    using assms
    by (simp add: daFetchSwapQuoteInner_def quoteWithTuning_def daCurrencyError_def
             split: prod.splits)
qed

lemma refresh_failed_cache:
  assumes "refreshFailed (infoReply env tr (InfoCall (appId env)))"
      and "now - exchangeInfoLastUpdate c > EXCHANGE_INFO_UPDATE_FREQ_MS env \<or> exchangeInfo c = None"
  shows "refreshExchangeInfo env now c tr = (c, tr @ [InfoCall (appId env)])"
  using assms
  by (auto simp: refreshExchangeInfo_def refreshAttempt_def refreshFailed_def
           split: infoReply.splits)

text \<open>
  Claim C8. When a refresh of the exchange info is due and its fetch fails (it rejects or
  times out, the response is not \<^verbatim>\<open>ok\<close>, or the body does not clean), the module
  variables stay as they were and the call goes on exactly as the rest of the function does
  with the spread and servers of the payload held before, or with the defaults when none is
  held: the result does not depend on the failure.
\<close>

theorem refresh_failure_not_surfaced:
  assumes "preflight env req = Inr (fromMainnetCode, toMainnetCode)"
      and "now - exchangeInfoLastUpdate c > EXCHANGE_INFO_UPDATE_FREQ_MS env \<or> exchangeInfo c = None"
      and "refreshFailed (infoReply env tr (InfoCall (appId env)))"
  shows "daFetchSwapQuoteInner env now now2 req c tr
           = (fst (quoteWithTuning env now2 req fromMainnetCode toMainnetCode (tuningOf env c)
                     (tr @ [InfoCall (appId env)])),
              c,
              snd (quoteWithTuning env now2 req fromMainnetCode toMainnetCode (tuningOf env c)
                     (tr @ [InfoCall (appId env)])))
         \<and> tuningOf env c
           = (case exchangeInfo c of
                None \<Rightarrow> \<lparr> tDaVolatilitySpread = 3 / 100,
                           tThornodeServers = THORNODE_SERVERS_DEFAULT env,
                           tThorswapServers = [''https://aggregator-prod-aulilvmdlq-uc.a.run.app''] \<rparr>
              | Some payload \<Rightarrow>
                  \<lparr> tDaVolatilitySpread = daVolatilitySpread payload,
                    tThornodeServers = (case thornodeServers payload of
                                          None \<Rightarrow> THORNODE_SERVERS_DEFAULT env | Some s \<Rightarrow> s),
                    tThorswapServers = (case thorSwapServers payload of
                                          None \<Rightarrow> [''https://aggregator-prod-aulilvmdlq-uc.a.run.app'']
                                        | Some s \<Rightarrow> s) \<rparr>)"
proof -
  have r: "refreshExchangeInfo env now c tr = (c, tr @ [InfoCall (appId env)])"
    using refresh_failed_cache [OF assms(3,2)] .
  have "daFetchSwapQuoteInner env now now2 req c tr
           = (fst (quoteWithTuning env now2 req fromMainnetCode toMainnetCode (tuningOf env c)
                     (tr @ [InfoCall (appId env)])),
              c,
              snd (quoteWithTuning env now2 req fromMainnetCode toMainnetCode (tuningOf env c)
                     (tr @ [InfoCall (appId env)])))"
    using assms(1) r by (simp add: daFetchSwapQuoteInner_def split: prod.splits)
  moreover have "tuningOf env c
           = (case exchangeInfo c of
                None \<Rightarrow> \<lparr> tDaVolatilitySpread = 3 / 100,
                           tThornodeServers = THORNODE_SERVERS_DEFAULT env,
                           tThorswapServers = [''https://aggregator-prod-aulilvmdlq-uc.a.run.app''] \<rparr>
              | Some payload \<Rightarrow>
                  \<lparr> tDaVolatilitySpread = daVolatilitySpread payload,
                    tThornodeServers = (case thornodeServers payload of
                                          None \<Rightarrow> THORNODE_SERVERS_DEFAULT env | Some s \<Rightarrow> s),
                    tThorswapServers = (case thorSwapServers payload of
                                          None \<Rightarrow> [''https://aggregator-prod-aulilvmdlq-uc.a.run.app'']
                                        | Some s \<Rightarrow> s) \<rparr>)"
    by (simp add: tuningOf_def DA_VOLATILITY_SPREAD_DEFAULT_def THORSWAP_DEFAULT_SERVERS_def
          split: option.splits)
  ultimately show ?thesis by simp
qed

text \<open>
  Claim C4, as amended. Given the two cleaned response bodies: a response with no route is
  refused with the plugin's \<open>SwapCurrencyError\<close>; so is a first route whose call data
  passes the call-data cleaner and which lists at most one provider. Once the inbound
  address of the source chain is found, a first route whose call data the cleaner rejects
  fails with the cleaner's error, whatever its providers, and a first route whose call
  data passes the cleaner and which lists two providers or more passes the hop check: the
  result is that of building the order for this route.
\<close>

theorem route_hop_check:
  shows "assemble env nowb req fromMainnetCode inboundAddresses [] = Inl (daCurrencyError req)
       \<and> (asCalldata (calldata oneHop) = Inr cdA \<longrightarrow> length (providers oneHop) \<le> 1 \<longrightarrow>
            assemble env nowb req fromMainnetCode inboundAddresses (oneHop # restA)
              = Inl (daCurrencyError req))
       \<and> (find (\<lambda>addrObj. \<not> iaHalted addrObj \<and> iaChain addrObj = fromMainnetCode)
              inboundAddresses = Some inAddressObject \<longrightarrow>
            (asCalldata (calldata badData) = Inl e \<longrightarrow>
               assemble env nowb req fromMainnetCode inboundAddresses (badData # restB) = Inl e)
          \<and> (asCalldata (calldata twoHops) = Inr cdC \<longrightarrow> 2 \<le> length (providers twoHops) \<longrightarrow>
               assemble env nowb req fromMainnetCode inboundAddresses (twoHops # restC)
                 = buildOrder env nowb req fromMainnetCode inAddressObject twoHops cdC))"
  by (simp add: assemble_def selectRoute_def split: option.splits)

lemma buildMemo_token:
  assumes "buildMemo env req fromMainnetCode inAddressObject thorSwap memo0 = Inr plan"
      and "EVM_CURRENCY_CODES env fromMainnetCode"
      and "fromMainnetCode \<noteq> fromCurrencyCode req"
  shows "mpEthNativeAmount plan = 0
       \<and> mpPublicAddress plan = (if tcDirect thorSwap then iaRouter inAddressObject else contract thorSwap)
       \<and> mpPublicAddress plan \<noteq> None"
  using assms
  by (auto simp: buildMemo_def Let_def split: option.splits sum.splits if_splits)

lemma assemble_token:
  assumes "assemble env now2 req fromMainnetCode inboundAddresses routes = Inr order"
      and "EVM_CURRENCY_CODES env fromMainnetCode"
      and "fromMainnetCode \<noteq> fromCurrencyCode req"
  shows "\<exists>inAddressObject thorSwap rest data.
           find (\<lambda>addrObj. \<not> iaHalted addrObj \<and> iaChain addrObj = fromMainnetCode) inboundAddresses
             = Some inAddressObject
         \<and> routes = thorSwap # rest
         \<and> spendTargets (soSpendInfo order)
             = [\<lparr> memo = Some data, nativeAmount = 0,
                  publicAddress = (if tcDirect thorSwap then iaRouter inAddressObject
                                   else contract thorSwap),
                  uniqueIdentifier = None \<rparr>]
         \<and> (if tcDirect thorSwap then iaRouter inAddressObject else contract thorSwap) \<noteq> None
         \<and> soFromNativeAmount order = reqNativeAmount req"
proof -
  from assms(1) obtain ia where ia:
    "find (\<lambda>addrObj. \<not> iaHalted addrObj \<and> iaChain addrObj = fromMainnetCode) inboundAddresses = Some ia"
    by (auto simp: assemble_def split: option.splits)
  from assms(1) ia obtain ts cd where sel: "selectRoute req routes = Inr (ts, cd)"
    by (auto simp: assemble_def split: sum.splits)
  then obtain rest where routes: "routes = ts # rest"
    by (auto simp: selectRoute_def split: list.splits sum.splits if_splits)
  have built: "buildOrder env now2 req fromMainnetCode ia ts cd = Inr order"
    using assms(1) ia sel by (simp add: assemble_def)
  let ?memo0 = "case tcMemo cd of Some m \<Rightarrow> m
                | None \<Rightarrow> (case cdMemo cd of Some m \<Rightarrow> m | None \<Rightarrow> [])"
  from built obtain plan where plan:
    "buildMemo env req fromMainnetCode ia ts ?memo0 = Inr plan"
    by (auto simp: buildOrder_def Let_def split: sum.splits)
  from built plan obtain pre where pre:
    "makePreTx req fromMainnetCode (mpApprovalData plan) = Inr pre"
    by (auto simp: buildOrder_def Let_def split: sum.splits)
  have ord: "order = \<lparr> soRequest = req,
                 soSpendInfo = mainSpendInfo env req fromMainnetCode ts plan,
                 soSwapInfo = daPluginId,
                 soFromNativeAmount = reqNativeAmount req,
                 soExpirationDate = now2 + EXPIRATION_MS env,
                 preTx = pre,
                 metadataNotes = ''DEX Providers: '' @ join '' -> '' (providers ts)
                                  @ ''\<newline>Path: '' @ path ts \<rparr>"
    using built plan pre by (simp add: buildOrder_def Let_def)
  have p: "mpEthNativeAmount plan = 0
       \<and> mpPublicAddress plan = (if tcDirect ts then iaRouter ia else contract ts)
       \<and> mpPublicAddress plan \<noteq> None"
    using buildMemo_token [OF plan assms(2,3)] .
  have t: "spendTargets (soSpendInfo order)
             = [\<lparr> memo = Some (mpMemo plan), nativeAmount = 0,
                  publicAddress = (if tcDirect ts then iaRouter ia else contract ts),
                  uniqueIdentifier = None \<rparr>]"
    using p by (simp add: ord mainSpendInfo_def)
  have ne: "(if tcDirect ts then iaRouter ia else contract ts) \<noteq> None"
    using p by metis
  have f: "soFromNativeAmount order = reqNativeAmount req" by (simp add: ord)
  show ?thesis
    by (intro exI conjI) (rule ia routes t ne f)+
qed

lemma whole_success:
  assumes "daFetchSwapQuoteInner env now now2 req c tr = (Inr order, c', tr')"
  shows "\<exists>fromMainnetCode toMainnetCode inboundAddresses routes.
           preflight env req = Inr (fromMainnetCode, toMainnetCode)
         \<and> assemble env now2 req fromMainnetCode inboundAddresses routes = Inr order"
  using assms
  by (auto simp: daFetchSwapQuoteInner_def quoteWithTuning_def Let_def
           split: sum.splits prod.splits if_splits)

lemma preflight_from:
  "preflight env req = Inr (f, t) \<Longrightarrow> MAINNET_CODE_TRANSCRIPTION env (pluginId (fromWallet req)) = Some f"
  by (auto simp: preflight_def split: if_splits option.splits)

text \<open>
  Claim C9. When the source chain is an EVM chain and the source asset is a token, every
  order the call returns has one main spend target, with native amount \<^verbatim>\<open>'0'\<close> and with
  the contract address as destination (the router of the inbound address when the first
  provider is THORCHAIN, the contract of the route otherwise), not the address of the
  vault; the order's \<^verbatim>\<open>fromNativeAmount\<close> is the request's native amount.
\<close>

theorem evm_token_spend:
  assumes "daFetchSwapQuoteInner env now now2 req c tr = (Inr order, c', tr')"
      and "MAINNET_CODE_TRANSCRIPTION env (pluginId (fromWallet req)) = Some fromMainnetCode"
      and "EVM_CURRENCY_CODES env fromMainnetCode"
      and "fromMainnetCode \<noteq> fromCurrencyCode req"
  shows "\<exists>inboundAddresses routes inAddressObject thorSwap rest data.
           assemble env now2 req fromMainnetCode inboundAddresses routes = Inr order
         \<and> find (\<lambda>addrObj. \<not> iaHalted addrObj \<and> iaChain addrObj = fromMainnetCode) inboundAddresses
             = Some inAddressObject
         \<and> routes = thorSwap # rest
         \<and> spendTargets (soSpendInfo order)
             = [\<lparr> memo = Some data, nativeAmount = 0,
                  publicAddress = (if tcDirect thorSwap then iaRouter inAddressObject
                                   else contract thorSwap),
                  uniqueIdentifier = None \<rparr>]
         \<and> (if tcDirect thorSwap then iaRouter inAddressObject else contract thorSwap) \<noteq> None
         \<and> soFromNativeAmount order = reqNativeAmount req"
proof -
  from whole_success [OF assms(1)] obtain f t ias routes where
    pf: "preflight env req = Inr (f, t)" and asm: "assemble env now2 req f ias routes = Inr order"
    by blast
  have "f = fromMainnetCode" using preflight_from [OF pf] assms(2) by simp
  with asm have a: "assemble env now2 req fromMainnetCode ias routes = Inr order" by simp
  from assemble_token [OF a assms(3,4)] a show ?thesis by blast
qed

theorem same_asset_refused_witness:
  "pluginId (fromWallet demoSameRequest) = pluginId (toWallet demoSameRequest)
   \<and> fromCurrencyCode demoSameRequest = toCurrencyCode demoSameRequest
   \<and> daFetchSwapQuoteInner (demoThorEnv InfoNotOk []) 100000 100001
        (demoSameRequest\<lparr>reqNativeAmount := 7\<rparr>) emptyCache []
       = (Inl (SwapCurrencyError ''thorchainda'' ''BTC'' ''BTC''), emptyCache, [])"
proof -
  have h1: "pluginId (fromWallet demoSameRequest) = pluginId (toWallet demoSameRequest)"
    by (simp add: demoSameRequest_def demoWallet_def)
  have h2: "fromCurrencyCode demoSameRequest = toCurrencyCode demoSameRequest"
    by (simp add: demoSameRequest_def)
  show ?thesis
    using same_asset_refused [OF h1 h2, of "demoThorEnv InfoNotOk []" 100000 100001 7 emptyCache "[]"]
      h1 h2
    by (simp add: daPluginId_def demoSameRequest_def)
qed

theorem reverse_quote_refused_witness:
  "quoteFor (demoTokenRequest QuoteTo 500) = QuoteTo
   \<and> fst (daFetchSwapQuoteInner (demoThorEnv InfoNotOk [demoTwoHopRoute]) 100000 100001
            (demoTokenRequest QuoteTo 500) emptyCache [])
       = Inl (SwapCurrencyError ''thorchainda'' ''USDC'' ''BTC'')"
proof -
  have h: "quoteFor (demoTokenRequest QuoteTo 500) = QuoteTo"
    by (simp add: demoTokenRequest_def)
  show ?thesis
    using reverse_quote_refused [OF h, of "demoThorEnv InfoNotOk [demoTwoHopRoute]" 100000 100001
            emptyCache "[]"] h
    by (simp add: daPluginId_def demoTokenRequest_def)
qed

theorem refresh_failure_not_surfaced_witness:
  "preflight (demoThorEnv (InfoRejects (Error ''timeout'')) [demoTwoHopRoute])
      (demoTokenRequest QuoteFrom 500) = Inr (''ETH'', ''BTC'')
   \<and> exchangeInfo emptyCache = None
   \<and> refreshFailed (infoReply (demoThorEnv (InfoRejects (Error ''timeout'')) [demoTwoHopRoute]) []
        (InfoCall (appId (demoThorEnv (InfoRejects (Error ''timeout'')) [demoTwoHopRoute]))))
   \<and> snd (daFetchSwapQuoteInner (demoThorEnv (InfoRejects (Error ''timeout'')) [demoTwoHopRoute])
        100000 100001 (demoTokenRequest QuoteFrom 500) emptyCache [])
       = (emptyCache,
          [InfoCall ''edge'', InboundCall [''https://thornode.example''],
           QuoteCall [''https://aggregator-prod-aulilvmdlq-uc.a.run.app'']
             \<lparr> sellAsset = ''ETH.USDC-0xa0b86991'', buyAsset = ''BTC.BTC'', sellAmount = 5,
               slippage = 3, recipientAddress = ''bc1recipient'', senderAddress = ''0xsender'',
               affiliateAddress = ''ej'', affiliateBasisPoints = ''50'' \<rparr>])
   \<and> (\<exists>order. fst (daFetchSwapQuoteInner
                      (demoThorEnv (InfoRejects (Error ''timeout'')) [demoTwoHopRoute])
                      100000 100001 (demoTokenRequest QuoteFrom 500) emptyCache []) = Inr order)"
proof -
  let ?E = "demoThorEnv (InfoRejects (Error ''timeout'')) [demoTwoHopRoute]"
  let ?R = "demoTokenRequest QuoteFrom 500"
  have h1: "preflight ?E ?R = Inr (''ETH'', ''BTC'')"
    by (simp add: thor_eval)
  have h2: "100000 - exchangeInfoLastUpdate emptyCache > EXCHANGE_INFO_UPDATE_FREQ_MS ?E
            \<or> exchangeInfo emptyCache = None"
    by (simp add: emptyCache_def)
  have h3: "refreshFailed (infoReply ?E [] (InfoCall (appId ?E)))"
    by (simp add: refreshFailed_def demoThorEnv_def)
  have q: "snd (quoteWithTuning ?E 100001 ?R ''ETH'' ''BTC'' (tuningOf ?E emptyCache)
                  ([] @ [InfoCall (appId ?E)]))
           = [InfoCall ''edge'', InboundCall [''https://thornode.example''],
              QuoteCall [''https://aggregator-prod-aulilvmdlq-uc.a.run.app'']
                \<lparr> sellAsset = ''ETH.USDC-0xa0b86991'', buyAsset = ''BTC.BTC'', sellAmount = 5,
                  slippage = 3, recipientAddress = ''bc1recipient'', senderAddress = ''0xsender'',
                  affiliateAddress = ''ej'', affiliateBasisPoints = ''50'' \<rparr>]"
    by (simp add: thor_eval demoTwoHopRoute_def)
  have r: "\<exists>order. fst (quoteWithTuning ?E 100001 ?R ''ETH'' ''BTC'' (tuningOf ?E emptyCache)
                          ([] @ [InfoCall (appId ?E)])) = Inr order"
    by (simp add: thor_eval demoTwoHopRoute_def)
  have e: "exchangeInfo emptyCache = None"
    by (simp add: emptyCache_def)
  show ?thesis
    using refresh_failure_not_surfaced [OF h1 h2 h3, of 100001] h1 h3 q r e
    by simp
qed

theorem route_hop_check_witness:
  "find (\<lambda>addrObj. \<not> iaHalted addrObj \<and> iaChain addrObj = ''ETH'') demoInbound
     = Some \<lparr> iaAddress = ''0xvault'', iaChain = ''ETH'', iaHalted = False,
              iaRouter = Some ''0xrouter'' \<rparr>
   \<and> assemble (demoThorEnv InfoNotOk []) 100001 (demoTokenRequest QuoteFrom 500) ''ETH''
        demoInbound [] = Inl (SwapCurrencyError ''thorchainda'' ''USDC'' ''BTC'')
   \<and> asCalldata (calldata (demoRoute [''UNISWAP''] (JArray []))) = Inr \<lparr> tcMemo = None, cdMemo = None \<rparr>
   \<and> assemble (demoThorEnv InfoNotOk []) 100001 (demoTokenRequest QuoteFrom 500) ''ETH''
        demoInbound [demoRoute [''UNISWAP''] (JArray [])]
       = Inl (SwapCurrencyError ''thorchainda'' ''USDC'' ''BTC'')
   \<and> asCalldata (calldata (demoRoute [''UNISWAP''] JNull)) = Inl (TypeError ''Expected an object'')
   \<and> assemble (demoThorEnv InfoNotOk []) 100001 (demoTokenRequest QuoteFrom 500) ''ETH''
        demoInbound [demoRoute [''UNISWAP''] JNull] = Inl (TypeError ''Expected an object'')
   \<and> asCalldata (calldata demoTwoHopRoute)
       = Inr \<lparr> tcMemo = Some ''=:BTC.BTC:bc1recipient'', cdMemo = None \<rparr>
   \<and> 2 \<le> length (providers demoTwoHopRoute)
   \<and> assemble (demoThorEnv InfoNotOk []) 100001 (demoTokenRequest QuoteFrom 500) ''ETH''
        demoInbound [demoTwoHopRoute]
       = buildOrder (demoThorEnv InfoNotOk []) 100001 (demoTokenRequest QuoteFrom 500) ''ETH''
           \<lparr> iaAddress = ''0xvault'', iaChain = ''ETH'', iaHalted = False,
             iaRouter = Some ''0xrouter'' \<rparr>
           demoTwoHopRoute \<lparr> tcMemo = Some ''=:BTC.BTC:bc1recipient'', cdMemo = None \<rparr>"
proof -
  let ?ia = "\<lparr> iaAddress = ''0xvault'', iaChain = ''ETH'', iaHalted = False,
               iaRouter = Some ''0xrouter'' \<rparr>"
  have h: "find (\<lambda>addrObj. \<not> iaHalted addrObj \<and> iaChain addrObj = ''ETH'') demoInbound = Some ?ia"
    by (simp add: demoInbound_def)
  have c1: "asCalldata (calldata (demoRoute [''UNISWAP''] (JArray [])))
              = Inr \<lparr> tcMemo = None, cdMemo = None \<rparr>"
    by (simp add: demoRoute_def asCalldata_def isTypeofObject_def jsonMember_def
          asOptionalString_def)
  have l1: "length (providers (demoRoute [''UNISWAP''] (JArray []))) \<le> 1"
    by (simp add: demoRoute_def)
  have c2: "asCalldata (calldata (demoRoute [''UNISWAP''] JNull)) = Inl (TypeError ''Expected an object'')"
    by (simp add: demoRoute_def asCalldata_def isTypeofObject_def)
  have c3: "asCalldata (calldata demoTwoHopRoute)
              = Inr \<lparr> tcMemo = Some ''=:BTC.BTC:bc1recipient'', cdMemo = None \<rparr>"
    by (simp add: demoTwoHopRoute_def demoRoute_def asCalldata_def isTypeofObject_def
          jsonMember_def asOptionalString_def)
  have l3: "2 \<le> length (providers demoTwoHopRoute)"
    by (simp add: demoTwoHopRoute_def demoRoute_def)
  show ?thesis
    using route_hop_check [where env = "demoThorEnv InfoNotOk []" and nowb = 100001
            and fromMainnetCode = "''ETH''" and inboundAddresses = demoInbound
            and inAddressObject = ?ia
            and req = "demoTokenRequest QuoteFrom 500"
            and oneHop = "demoRoute [''UNISWAP''] (JArray [])" and restA = "[]"
            and cdA = "\<lparr> tcMemo = None, cdMemo = None \<rparr>"
            and badData = "demoRoute [''UNISWAP''] JNull" and restB = "[]"
            and e = "TypeError ''Expected an object''"
            and twoHops = demoTwoHopRoute and restC = "[]"
            and cdC = "\<lparr> tcMemo = Some ''=:BTC.BTC:bc1recipient'', cdMemo = None \<rparr>"]
      h c1 l1 c2 c3 l3
    by (simp add: daCurrencyError_def daPluginId_def demoTokenRequest_def)
qed

text \<open>
  Claim C4 as stated fails: the response below has one route, which lists exactly one
  provider, and the call fails with the \<open>TypeError\<close> of the call-data cleaner, which is not
  a \<open>SwapCurrencyError\<close>; the call data of the route is \<^verbatim>\<open>null\<close>, which the response
  cleaner accepts, and it is cleaned before the providers are counted.
\<close>

theorem single_hop_null_calldata_counterexample:
  "length (providers (demoRoute [''UNISWAP''] JNull)) = 1
   \<and> fst (daFetchSwapQuoteInner (demoThorEnv InfoNotOk [demoRoute [''UNISWAP''] JNull])
            100000 100001 (demoTokenRequest QuoteFrom 500) emptyCache [])
       = Inl (TypeError ''Expected an object'')
   \<and> \<not> isSwapCurrencyError
          (fst (daFetchSwapQuoteInner (demoThorEnv InfoNotOk [demoRoute [''UNISWAP''] JNull])
                  100000 100001 (demoTokenRequest QuoteFrom 500) emptyCache []))"
  by (simp add: thor_eval isSwapCurrencyError_def)

theorem evm_token_spend_witness:
  "MAINNET_CODE_TRANSCRIPTION (demoThorEnv InfoNotOk [demoTwoHopRoute])
      (pluginId (fromWallet (demoTokenRequest QuoteFrom 500))) = Some ''ETH''
   \<and> EVM_CURRENCY_CODES (demoThorEnv InfoNotOk [demoTwoHopRoute]) ''ETH''
   \<and> ''ETH'' \<noteq> fromCurrencyCode (demoTokenRequest QuoteFrom 500)
   \<and> (\<exists>order c' tr'.
         daFetchSwapQuoteInner (demoThorEnv InfoNotOk [demoTwoHopRoute]) 100000 100001
           (demoTokenRequest QuoteFrom 500) emptyCache [] = (Inr order, c', tr')
       \<and> map nativeAmount (spendTargets (soSpendInfo order)) = [0]
       \<and> map spendTarget.publicAddress (spendTargets (soSpendInfo order)) = [Some ''0xBBBB'']
       \<and> soFromNativeAmount order = 500)"
proof -
  let ?E = "demoThorEnv InfoNotOk [demoTwoHopRoute]"
  let ?R = "demoTokenRequest QuoteFrom 500"
  have h2: "MAINNET_CODE_TRANSCRIPTION ?E (pluginId (fromWallet ?R)) = Some ''ETH''"
    by (simp add: demoThorEnv_def demoTokenRequest_def demoWallet_def)
  have h3: "EVM_CURRENCY_CODES ?E ''ETH''"
    by (simp add: demoThorEnv_def)
  have h4: "''ETH'' \<noteq> fromCurrencyCode ?R"
    by (simp add: demoTokenRequest_def)
  have "\<exists>order c' tr'. daFetchSwapQuoteInner ?E 100000 100001 ?R emptyCache [] = (Inr order, c', tr')
          \<and> map spendTarget.publicAddress (spendTargets (soSpendInfo order)) = [Some ''0xBBBB'']"
    by (simp add: thor_eval demoTwoHopRoute_def)
  then obtain order c' tr' where
    run: "daFetchSwapQuoteInner ?E 100000 100001 ?R emptyCache [] = (Inr order, c', tr')"
    and dest: "map spendTarget.publicAddress (spendTargets (soSpendInfo order)) = [Some ''0xBBBB'']"
    by (elim exE conjE)
  from evm_token_spend [OF run h2 h3 h4]
  have "map nativeAmount (spendTargets (soSpendInfo order)) = [0]
        \<and> soFromNativeAmount order = reqNativeAmount ?R"
    by auto
  then have n: "map nativeAmount (spendTargets (soSpendInfo order)) = [0]"
    and f: "soFromNativeAmount order = 500"
    by (simp_all add: demoTokenRequest_def)
  show ?thesis
    by (intro conjI exI) (rule h2 h3 h4 run n dest f)+
qed

text \<open>
  Claim C6. For a contract registered with the type \<^verbatim>\<open>'INVALID'\<close>, which is not in the
  template table, the \<^verbatim>\<open>Unsupported contract\<close> error is thrown inside the \<^verbatim>\<open>try\<close>
  and replaced by its handler: the call fails with the very error it fails with when no
  interface is registered at all. For a registered type other than \<^verbatim>\<open>'INVALID'\<close> that
  is not in the template table, the call fails with the \<open>TypeError\<close> of reading a member
  of \<^verbatim>\<open>undefined\<close>. A registered type of the table encodes the call.
\<close>

theorem getCalldataData_invalid_type_as_missing_abi:
  "getCalldataData (demoThorEnv InfoNotOk []) ''ethereum'' ''0xAAAA'' ''swapIn'' (JObject [])
     = Inl (Error ''Could not find ABI for contract ethereum-0xAAAA'')
   \<and> getCalldataData ((demoThorEnv InfoNotOk [])\<lparr>abiMap := (\<lambda>p. None)\<rparr>) ''ethereum'' ''0xAAAA''
        ''swapIn'' (JObject [])
     = Inl (Error ''Could not find ABI for contract ethereum-0xAAAA'')
   \<and> getCalldataData (demoThorEnv InfoNotOk []) ''ethereum'' ''0xCCCC'' ''swapIn'' (JObject [])
     = Inl (TypeError ''Cannot read properties of undefined (reading map)'')
   \<and> getCalldataData (demoThorEnv InfoNotOk []) ''ethereum'' ''0xBBBB'' ''swapIn'' (JObject [])
     = Inr ''0xswapcall''"
  by (simp add: thor_eval)

end
